theory Spec2Isabelle
  imports Main "HOL-Library.Word"
begin

text \<open>
  A model of the forwarding shim of godwoken-web3: the RPC client wrapper \<open>Gw\<close> with its
  error translator \<open>parseError\<close> and the fixed-layout log decoder
  \<open>parsePolyjuiceSystemLog\<close>, and the net info methods of class \<open>Net\<close>.  A function that
  can throw returns a sum: \<open>Inl\<close> carries the exception, \<open>Inr\<close> the value.
\<close>

section \<open>JavaScript values and exceptions\<close>

text \<open>
  The values that \<open>JSON.parse\<close> produces and that the program passes around untyped
  (\<open>any\<close>).  Strings are lists of characters, one per code unit.  The program does no
  arithmetic on the numbers it receives; the numbers it handles are integers (error
  codes, the status code of a log).
\<close>

datatype jsval =
    JUndefined
  | JNull
  | JBool bool
  | JNumber int
  | JString string
  | JArray "jsval list"
  | JObject "(string \<times> jsval) list"

text \<open>
  What a \<open>throw\<close> carries.  \<open>RpcError code message\<close> is the class of \<open>../error\<close>;
  \<open>Error message\<close> is the plain built-in error; \<open>TypeError\<close>, \<open>SyntaxError\<close> and
  \<open>RangeError\<close> are the engine's own errors (their message texts are left out).
\<close>

datatype exn =
    RpcError jsval string
  | Error string
  | TypeError
  | SyntaxError
  | RangeError

type_synonym byte = "8 word"

section \<open>Strings\<close>

definition startsWith :: "string \<Rightarrow> string \<Rightarrow> bool" where
  "startsWith s p = (take (length p) s = p)"

definition digit_char :: "nat \<Rightarrow> char" where
  "digit_char d = ''0123456789'' ! d"

text \<open>The decimal text of a length in a template literal.\<close>

fun show_nat :: "nat \<Rightarrow> string" where
  "show_nat n = (if n < 10 then [digit_char n] else show_nat (n div 10) @ [digit_char (n mod 10)])"

declare show_nat.simps [simp del]

section \<open>Buffers\<close>

text \<open>
  \<open>Buffer.from(s, "hex")\<close>: two characters give one byte; decoding stops at the first
  pair that is not two hexadecimal digits, and a trailing single character is dropped.
\<close>

definition unhex :: "char \<Rightarrow> nat option" where
  "unhex c =
     (let n = (of_char c :: nat) in
      if 48 \<le> n \<and> n \<le> 57 then Some (n - 48)
      else if 65 \<le> n \<and> n \<le> 70 then Some (n - 55)
      else if 97 \<le> n \<and> n \<le> 102 then Some (n - 87)
      else None)"

fun hex_decode :: "string \<Rightarrow> byte list" where
  "hex_decode (a # b # rest) =
     (case unhex a of
        None \<Rightarrow> []
      | Some x \<Rightarrow>
          (case unhex b of
             None \<Rightarrow> []
           | Some y \<Rightarrow> of_nat (x * 16 + y) # hex_decode rest))"
| "hex_decode _ = []"

definition Buffer_from_hex :: "string \<Rightarrow> byte list" where
  "Buffer_from_hex s = hex_decode s"

text \<open>\<open>buf.toString("hex")\<close>: two lower-case digits per byte.\<close>

definition hex_digit :: "nat \<Rightarrow> char" where
  "hex_digit d = ''0123456789abcdef'' ! d"

definition hex_byte :: "byte \<Rightarrow> string" where
  "hex_byte b = [hex_digit (unat b div 16), hex_digit (unat b mod 16)]"

definition toString_hex :: "byte list \<Rightarrow> string" where
  "toString_hex buf = concat (map hex_byte buf)"

text \<open>\<open>buf.slice(start, end)\<close> for \<open>0 \<le> start \<le> end\<close>: both ends are clamped to the length.\<close>

definition Buffer_slice :: "byte list \<Rightarrow> nat \<Rightarrow> nat \<Rightarrow> byte list" where
  "Buffer_slice buf start end = take (end - start) (drop start buf)"

text \<open>\<open>buf[i]\<close>: \<open>undefined\<close> (here \<open>None\<close>) outside the buffer.\<close>

definition byte_at :: "byte list \<Rightarrow> nat \<Rightarrow> nat option" where
  "byte_at buf i = (if i < length buf then Some (unat (buf ! i)) else None)"

text \<open>
  \<open>buf.readUInt32LE(offset)\<close> and \<open>buf.readBigUInt64LE(offset)\<close> as Node computes them:
  the first and the last byte are looked up for the bounds check, then the bytes are
  weighted by powers of \<open>2 ^ 8\<close>; the 64-bit read adds the low half to the high half
  shifted by 32 bits.
\<close>

definition readUInt32LE :: "byte list \<Rightarrow> nat \<Rightarrow> exn + nat" where
  "readUInt32LE buf offset =
     (case byte_at buf offset of
        None \<Rightarrow> Inl RangeError
      | Some first_byte \<Rightarrow>
          (case byte_at buf (offset + 3) of
             None \<Rightarrow> Inl RangeError
           | Some last_byte \<Rightarrow>
               Inr (first_byte
                    + unat (buf ! (offset + 1)) * 2 ^ 8
                    + unat (buf ! (offset + 2)) * 2 ^ 16
                    + last_byte * 2 ^ 24)))"

definition readBigUInt64LE :: "byte list \<Rightarrow> nat \<Rightarrow> exn + nat" where
  "readBigUInt64LE buf offset =
     (case byte_at buf offset of
        None \<Rightarrow> Inl RangeError
      | Some first_byte \<Rightarrow>
          (case byte_at buf (offset + 7) of
             None \<Rightarrow> Inl RangeError
           | Some last_byte \<Rightarrow>
               (let lo = first_byte
                         + unat (buf ! (offset + 1)) * 2 ^ 8
                         + unat (buf ! (offset + 2)) * 2 ^ 16
                         + unat (buf ! (offset + 3)) * 2 ^ 24;
                    hi = unat (buf ! (offset + 4))
                         + unat (buf ! (offset + 5)) * 2 ^ 8
                         + unat (buf ! (offset + 6)) * 2 ^ 16
                         + last_byte * 2 ^ 24
                in Inr (lo + hi * 2 ^ 32))))"

text \<open>
  The unsigned integer that a byte sequence encodes in little-endian order: the first
  byte is the least significant.
\<close>

fun le_uint :: "byte list \<Rightarrow> nat" where
  "le_uint [] = 0"
| "le_uint (b # bs) = unat b + 256 * le_uint bs"

section \<open>The fixed-layout log decoder\<close>

text \<open>Of a \<open>LogItem\<close> the decoder reads the field \<open>data\<close> only.\<close>

record LogItem =
  data :: string

record PolyjuiceSystemLog =
  gasUsed :: nat
  cumulativeGasUsed :: nat
  createdAddress :: string
  statusCode :: nat

text \<open>The body of \<open>parsePolyjuiceSystemLog\<close> once the buffer is built.\<close>

definition decode_buffer :: "byte list \<Rightarrow> exn + PolyjuiceSystemLog" where
  "decode_buffer buf =
     (if length buf \<noteq> 8 + 8 + 16 + 4 + 4 then
        Inl (Error (''invalid system log raw data length: '' @ show_nat (length buf)))
      else
        (case readBigUInt64LE buf 0 of
           Inl e \<Rightarrow> Inl e
         | Inr g \<Rightarrow>
             (case readBigUInt64LE buf 8 of
                Inl e \<Rightarrow> Inl e
              | Inr c \<Rightarrow>
                  (let a = ''0x'' @ toString_hex (Buffer_slice buf 16 32) in
                   case readUInt32LE buf 32 of
                     Inl e \<Rightarrow> Inl e
                   | Inr s \<Rightarrow>
                       Inr \<lparr>gasUsed = g, cumulativeGasUsed = c,
                            createdAddress = a, statusCode = s\<rparr>))))"

definition parsePolyjuiceSystemLog :: "LogItem \<Rightarrow> exn + PolyjuiceSystemLog" where
  "parsePolyjuiceSystemLog logItem = decode_buffer (Buffer_from_hex (drop 2 (data logItem)))"


section \<open>Untyped values at run time\<close>

text \<open>
  \<open>v.k\<close> for the property names the program reads (\<open>data\<close>, \<open>last_log\<close>,
  \<open>return_data\<close>, \<open>code\<close>), none of which any prototype defines: a \<open>TypeError\<close> on
  \<open>undefined\<close> and \<open>null\<close>, the stored value on an object that has the key, and
  \<open>undefined\<close> everywhere else.
\<close>

fun get_prop :: "jsval \<Rightarrow> string \<Rightarrow> exn + jsval" where
  "get_prop JUndefined k = Inl TypeError"
| "get_prop JNull k = Inl TypeError"
| "get_prop (JObject kvs) k = Inr (case map_of kvs k of None \<Rightarrow> JUndefined | Some v \<Rightarrow> v)"
| "get_prop v k = Inr JUndefined"

text \<open>
  What the program uses and does not define: \<open>JSON.parse\<close> (\<open>None\<close> is its
  \<open>SyntaxError\<close>), \<open>JSON.stringify\<close>, the ABI coder's \<open>decodeParameter("string", _)\<close>,
  \<open>Buffer.from\<close> on an array, and the constant \<open>GW_RPC_REQUEST_ERROR\<close> of
  \<open>../error-code\<close>.
\<close>

record externals =
  JSON_parse :: "string \<Rightarrow> jsval option"
  JSON_stringify :: "jsval \<Rightarrow> string"
  decodeParameter :: "string \<Rightarrow> exn + string"
  Buffer_from_array :: "jsval list \<Rightarrow> byte list"
  GW_RPC_REQUEST_ERROR :: int

text \<open>
  \<open>Buffer.from(logItem.data.slice(2), "hex")\<close> when \<open>logItem\<close> is whatever the parsed
  JSON holds: a string is sliced and hex-decoded, an array is sliced and copied, and
  nothing else has a \<open>slice\<close> to call.
\<close>

definition logItem_buffer :: "externals \<Rightarrow> jsval \<Rightarrow> exn + byte list" where
  "logItem_buffer ext logItem =
     (case get_prop logItem ''data'' of
        Inl e \<Rightarrow> Inl e
      | Inr d \<Rightarrow>
          (case d of
             JString s \<Rightarrow> Inr (Buffer_from_hex (drop 2 s))
           | JArray xs \<Rightarrow> Inr (Buffer_from_array ext (drop 2 xs))
           | _ \<Rightarrow> Inl TypeError))"

definition parsePolyjuiceSystemLog_untyped ::
    "externals \<Rightarrow> jsval \<Rightarrow> exn + PolyjuiceSystemLog" where
  "parsePolyjuiceSystemLog_untyped ext logItem =
     (case logItem_buffer ext logItem of
        Inl e \<Rightarrow> Inl e
      | Inr buf \<Rightarrow> decode_buffer buf)"

text \<open>\<open>v.substring(10)\<close>: only a string has the method.\<close>

definition substring10 :: "jsval \<Rightarrow> exn + string" where
  "substring10 v = (case v of JString s \<Rightarrow> Inr (drop 10 s) | _ \<Rightarrow> Inl TypeError)"

section \<open>The error translator\<close>

record js_error =
  message :: string

definition errorReceipt :: "nat \<Rightarrow> string \<Rightarrow> jsval" where
  "errorReceipt code reason =
     JObject [(''status_code'', JNumber (int code)), (''status_reason'', JString reason)]"

text \<open>
  \<open>parseError\<close> is declared to return \<open>void\<close>: \<open>Inr ()\<close> would be a normal return,
  \<open>Inl x\<close> is \<open>throw x\<close>.  The block of its first \<open>if\<close> is \<open>revert_branch\<close>, applied to
  the text after the prefix; each of its steps can throw, and what it throws leaves
  \<open>parseError\<close> as it is, since nothing catches it.
\<close>

definition revert_branch :: "externals \<Rightarrow> string \<Rightarrow> exn + unit" where
  "revert_branch ext jsonErr =
     (case JSON_parse ext jsonErr of
        None \<Rightarrow> Inl SyntaxError
      | Some err \<Rightarrow>
      (case get_prop err ''data'' of
        Inl e \<Rightarrow> Inl e
      | Inr err_data \<Rightarrow>
      (case get_prop err_data ''last_log'' of
        Inl e \<Rightarrow> Inl e
      | Inr last_log \<Rightarrow>
      (case parsePolyjuiceSystemLog_untyped ext last_log of
        Inl e \<Rightarrow> Inl e
      | Inr polyjuiceSystemLog \<Rightarrow>
      (case get_prop err_data ''return_data'' of
        Inl e \<Rightarrow> Inl e
      | Inr return_data \<Rightarrow>
      (case substring10 return_data of
        Inl e \<Rightarrow> Inl e
      | Inr abi_data \<Rightarrow>
      (case decodeParameter ext abi_data of
        Inl e \<Rightarrow> Inl e
      | Inr statusReason \<Rightarrow>
      (case get_prop err ''code'' of
        Inl e \<Rightarrow> Inl e
      | Inr code \<Rightarrow>
          Inl (RpcError code
                (JSON_stringify ext
                   (errorReceipt (statusCode polyjuiceSystemLog) statusReason)))))))))))"

definition parseError :: "externals \<Rightarrow> js_error \<Rightarrow> exn + unit" where
  "parseError ext error =
     (let prefix = ''JSONRPCError: server error '' in
      if startsWith (message error) prefix then
        revert_branch ext (drop (length prefix) (message error))
      else if startsWith (message error) ''request to'' then
        Inl (Error (message error))
      else
        Inl (RpcError (JNumber (GW_RPC_REQUEST_ERROR ext)) (message error)))"

text \<open>
  The property \<open>code\<close> of a thrown value: an \<open>RpcError\<close> is built from a code and a
  message, the other errors from a message alone.
\<close>

fun exn_code :: "exn \<Rightarrow> jsval option" where
  "exn_code (RpcError code msg) = Some code"
| "exn_code e = None"

section \<open>The RPC client wrapper\<close>

text \<open>
  The upstream endpoint answers a call (remote method name, arguments) with a result or
  rejects it with an error.  A method of \<open>Gw\<close> yields the calls it sent and either its
  return value or what it throws.
\<close>

type_synonym upstream = "string \<Rightarrow> jsval list \<Rightarrow> js_error + jsval"

type_synonym gw_result = "(string \<times> jsval list) list \<times> (exn + jsval)"

text \<open>
  The body all methods share, for the remote method \<open>name\<close>.  Were \<open>parseError\<close> to
  return, the method would fall off its end and return \<open>undefined\<close>.
\<close>

definition forward :: "externals \<Rightarrow> upstream \<Rightarrow> string \<Rightarrow> jsval list \<Rightarrow> gw_result" where
  "forward ext rpc name args =
     ([(name, args)],
      (case rpc name args of
         Inr result \<Rightarrow> Inr result
       | Inl error \<Rightarrow>
           (case parseError ext error of
              Inl e \<Rightarrow> Inl e
            | Inr u \<Rightarrow> Inr JUndefined)))"

datatype gw_method =
    ping
  | get_tip_block_hash
  | get_block_hash
  | get_block
  | get_block_by_number
  | get_balance
  | get_storage_at
  | get_account_id_by_script_hash
  | get_nonce
  | get_script
  | get_script_hash
  | get_data
  | get_transaction_receipt
  | get_transaction
  | execute_l2transaction
  | execute_raw_l2transaction
  | submit_l2transaction
  | submit_withdrawal_request
  | get_script_hash_by_short_address

text \<open>The name under which class \<open>Gw\<close> declares each method.\<close>

fun method_name :: "gw_method \<Rightarrow> string" where
  "method_name ping = ''ping''"
| "method_name get_tip_block_hash = ''get_tip_block_hash''"
| "method_name get_block_hash = ''get_block_hash''"
| "method_name get_block = ''get_block''"
| "method_name get_block_by_number = ''get_block_by_number''"
| "method_name get_balance = ''get_balance''"
| "method_name get_storage_at = ''get_storage_at''"
| "method_name get_account_id_by_script_hash = ''get_account_id_by_script_hash''"
| "method_name get_nonce = ''get_nonce''"
| "method_name get_script = ''get_script''"
| "method_name get_script_hash = ''get_script_hash''"
| "method_name get_data = ''get_data''"
| "method_name get_transaction_receipt = ''get_transaction_receipt''"
| "method_name get_transaction = ''get_transaction''"
| "method_name execute_l2transaction = ''execute_l2transaction''"
| "method_name execute_raw_l2transaction = ''execute_raw_l2transaction''"
| "method_name submit_l2transaction = ''submit_l2transaction''"
| "method_name submit_withdrawal_request = ''submit_withdrawal_request''"
| "method_name get_script_hash_by_short_address = ''get_script_hash_by_short_address''"

text \<open>The method bodies, each with the remote method it calls on \<open>this.rpc\<close>.\<close>

fun Gw_body :: "externals \<Rightarrow> upstream \<Rightarrow> gw_method \<Rightarrow> jsval list \<Rightarrow> gw_result" where
  "Gw_body ext rpc ping args = forward ext rpc ''gw_ping'' args"
| "Gw_body ext rpc get_tip_block_hash args = forward ext rpc ''gw_get_tip_block_hash'' args"
| "Gw_body ext rpc get_block_hash args = forward ext rpc ''gw_get_block_hash'' args"
| "Gw_body ext rpc get_block args = forward ext rpc ''gw_get_block'' args"
| "Gw_body ext rpc get_block_by_number args = forward ext rpc ''gw_get_block_by_number'' args"
| "Gw_body ext rpc get_balance args = forward ext rpc ''gw_get_balance'' args"
| "Gw_body ext rpc get_storage_at args = forward ext rpc ''gw_get_storage_at'' args"
| "Gw_body ext rpc get_account_id_by_script_hash args =
     forward ext rpc ''gw_get_account_id_by_script_hash'' args"
| "Gw_body ext rpc get_nonce args = forward ext rpc ''gw_get_nonce'' args"
| "Gw_body ext rpc get_script args = forward ext rpc ''gw_get_script'' args"
| "Gw_body ext rpc get_script_hash args = forward ext rpc ''gw_get_script_hash'' args"
| "Gw_body ext rpc get_data args = forward ext rpc ''gw_get_data'' args"
| "Gw_body ext rpc get_transaction_receipt args =
     forward ext rpc ''gw_get_transaction_receipt'' args"
| "Gw_body ext rpc get_transaction args = forward ext rpc ''gw_get_transaction'' args"
| "Gw_body ext rpc execute_l2transaction args =
     forward ext rpc ''gw_execute_l2transaction'' args"
| "Gw_body ext rpc execute_raw_l2transaction args =
     forward ext rpc ''gw_execute_raw_l2transaction'' args"
| "Gw_body ext rpc submit_l2transaction args =
     forward ext rpc ''gw_submit_l2transaction'' args"
| "Gw_body ext rpc submit_withdrawal_request args =
     forward ext rpc ''gw_submit_withdrawal_request'' args"
| "Gw_body ext rpc get_script_hash_by_short_address args =
     forward ext rpc ''gw_get_script_hash_by_short_address'' args"

text \<open>
  The constructor replaces these methods by \<open>middleware(method, 0)\<close>; \<open>middleware\<close> comes
  from \<open>../validator\<close> and is a parameter here.
\<close>

definition constructor_wrapped :: "gw_method list" where
  "constructor_wrapped =
     [ping, get_tip_block_hash, get_block_hash, get_block, get_block_by_number,
      get_balance, get_storage_at, get_account_id_by_script_hash, get_nonce, get_script,
      get_script_hash, get_data, get_transaction_receipt, get_transaction,
      execute_l2transaction, execute_raw_l2transaction, submit_l2transaction,
      submit_withdrawal_request]"

definition Gw ::
    "((jsval list \<Rightarrow> gw_result) \<Rightarrow> nat \<Rightarrow> jsval list \<Rightarrow> gw_result) \<Rightarrow>
     externals \<Rightarrow> upstream \<Rightarrow> gw_method \<Rightarrow> jsval list \<Rightarrow> gw_result" where
  "Gw middleware ext rpc m =
     (if m \<in> set constructor_wrapped then middleware (Gw_body ext rpc m) 0
      else Gw_body ext rpc m)"

section \<open>The net info methods\<close>

text \<open>
  What class \<open>Net\<close> reads from outside: \<open>Config.chain_id\<close> of the static configuration
  and the answer of \<open>server.isListening()\<close> at the time of the call.  A method's effect is
  its call of \<open>callback\<close>.
\<close>

record net_env =
  chain_id :: jsval
  isListening :: bool

definition version :: "net_env \<Rightarrow> jsval list \<Rightarrow> (jsval \<Rightarrow> jsval \<Rightarrow> 'r) \<Rightarrow> 'r" where
  "version env args callback = callback JNull (chain_id env)"

definition peerCount :: "net_env \<Rightarrow> jsval list \<Rightarrow> (jsval \<Rightarrow> jsval \<Rightarrow> 'r) \<Rightarrow> 'r" where
  "peerCount env args callback = callback JNull (JNumber 0)"

definition listening :: "net_env \<Rightarrow> jsval list \<Rightarrow> (jsval \<Rightarrow> jsval \<Rightarrow> 'r) \<Rightarrow> 'r" where
  "listening env args callback = callback JNull (JBool (isListening env))"

section \<open>Sample inputs\<close>

text \<open>
  A log of 40 bytes: gas used 1, cumulative gas used 2, an address of 16 bytes, status
  code 7, and four trailing bytes.
\<close>

definition sample_log :: LogItem where
  "sample_log = \<lparr>data =
     ''0x010000000000000002000000000000000102030405060708090a0b0c0d0e0fa007000000ffffffff''\<rparr>"

text \<open>The same log with other trailing bytes.\<close>

definition sample_log' :: LogItem where
  "sample_log' = \<lparr>data =
     ''0x010000000000000002000000000000000102030405060708090a0b0c0d0e0fa00700000000000000''\<rparr>"

text \<open>
  An upstream revert: code 5, a log of 40 zero bytes, and return data made of \<open>0x\<close>, a
  selector of four bytes and the ABI encoding of the string \<open>hi\<close>.
\<close>

definition sample_abi :: string where
  "sample_abi =
     ''0000000000000000000000000000000000000000000000000000000000000020''
     @ ''0000000000000000000000000000000000000000000000000000000000000002''
     @ ''6869000000000000000000000000000000000000000000000000000000000000''"

definition sample_zero_hex :: string where
  "sample_zero_hex =
     ''0x00000000000000000000000000000000000000000000000000000000000000000000000000000000''"

definition sample_return_data :: string where
  "sample_return_data = ''0x08c379a0'' @ sample_abi"

definition sample_last_log :: jsval where
  "sample_last_log = JObject [(''data'', JString sample_zero_hex)]"

definition sample_revert_data :: jsval where
  "sample_revert_data =
     JObject [(''last_log'', sample_last_log), (''return_data'', JString sample_return_data)]"

definition sample_revert_json :: jsval where
  "sample_revert_json = JObject [(''code'', JNumber 5), (''data'', sample_revert_data)]"

definition sample_revert_text :: string where
  \<open>sample_revert_text =
     ''{"code":5,"data":{"last_log":{"data":"'' @ sample_zero_hex
     @ ''"},"return_data":"'' @ sample_return_data @ ''"}}''\<close>

definition sample_receipt_text :: string where
  \<open>sample_receipt_text = ''{"status_code":0,"status_reason":"hi"}''\<close>

text \<open>A revert whose log has no bytes.\<close>

definition sample_short_json :: jsval where
  "sample_short_json =
     JObject
       [(''code'', JNumber 5),
        (''data'',
           JObject
             [(''last_log'', JObject [(''data'', JString ''0x'')]),
              (''return_data'', JString sample_return_data)])]"

definition sample_short_text :: string where
  \<open>sample_short_text =
     ''{"code":5,"data":{"last_log":{"data":"0x"},"return_data":"'' @ sample_return_data
     @ ''"}}''\<close>

text \<open>
  The example of section 8 of the specification: code 5, a log of 40 zero bytes, and
  return data made of \<open>0x\<close>, ten zeros and the ABI encoding of \<open>hi\<close>.
\<close>

definition sample_section8_json :: jsval where
  "sample_section8_json =
     JObject
       [(''code'', JNumber 5),
        (''data'',
           JObject
             [(''last_log'', sample_last_log),
              (''return_data'', JString (''0x0000000000'' @ sample_abi))])]"

definition sample_section8_text :: string where
  \<open>sample_section8_text =
     ''{"code":5,"data":{"last_log":{"data":"'' @ sample_zero_hex
     @ ''"},"return_data":"0x0000000000'' @ sample_abi @ ''"}}''\<close>

text \<open>A revert with code 3 whose log is \<open>sample_log\<close>, of status code 7.\<close>

definition sample_coded_json :: jsval where
  "sample_coded_json =
     JObject
       [(''code'', JNumber 3),
        (''data'',
           JObject
             [(''last_log'', JObject [(''data'', JString (data sample_log))]),
              (''return_data'', JString sample_return_data)])]"

definition sample_coded_text :: string where
  \<open>sample_coded_text =
     ''{"code":3,"data":{"last_log":{"data":"'' @ data sample_log
     @ ''"},"return_data":"'' @ sample_return_data @ ''"}}''\<close>

text \<open>A revert whose return data holds nothing behind \<open>0x\<close>.\<close>

definition sample_undecodable_json :: jsval where
  "sample_undecodable_json =
     JObject
       [(''code'', JNumber 5),
        (''data'', JObject [(''last_log'', sample_last_log), (''return_data'', JString ''0x'')])]"

definition sample_undecodable_text :: string where
  \<open>sample_undecodable_text =
     ''{"code":5,"data":{"last_log":{"data":"'' @ sample_zero_hex
     @ ''"},"return_data":"0x"}}''\<close>

text \<open>A revert that carries no code.\<close>

definition sample_nocode_json :: jsval where
  "sample_nocode_json = JObject [(''data'', sample_revert_data)]"

definition sample_nocode_text :: string where
  \<open>sample_nocode_text =
     ''{"data":{"last_log":{"data":"'' @ sample_zero_hex
     @ ''"},"return_data":"'' @ sample_return_data @ ''"}}''\<close>

text \<open>Two more receipts, and the message of the ABI coder's error when it is given no data.\<close>

definition sample_receipt_empty_text :: string where
  \<open>sample_receipt_empty_text = ''{"status_code":0,"status_reason":""}''\<close>

definition sample_receipt_coded_text :: string where
  \<open>sample_receipt_coded_text = ''{"status_code":7,"status_reason":"hi"}''\<close>

definition sample_abi_error_text :: string where
  "sample_abi_error_text =
     ''Returned values aren't valid, did it run Out of Gas? ''
     @ ''You might also see this error if you are not using the ''
     @ ''correct ABI for the contract you are retrieving data from, ''
     @ ''requesting data from a block number that does not exist, ''
     @ ''or querying a node which is not fully synced.''"

text \<open>
  Stand-ins for what the program imports, fixed as far as the samples need them:
  \<open>JSON.parse\<close> on the texts above, on \<open>{}\<close> and on a text that is no JSON,
  \<open>JSON.stringify\<close> on three receipts, and the ABI coder on \<open>sample_abi\<close>, on
  \<open>sample_abi\<close> behind two zeros, where the string it finds is empty, and on no data at
  all, where it throws.
\<close>

definition sample_externals :: externals where
  \<open>sample_externals =
     \<lparr>JSON_parse =
        (\<lambda>s. if s = sample_revert_text then Some sample_revert_json
             else if s = sample_short_text then Some sample_short_json
             else if s = sample_receipt_text then Some (errorReceipt 0 ''hi'')
             else if s = ''{}'' then Some (JObject [])
             else if s = sample_section8_text then Some sample_section8_json
             else if s = sample_coded_text then Some sample_coded_json
             else if s = sample_undecodable_text then Some sample_undecodable_json
             else if s = sample_nocode_text then Some sample_nocode_json
             else if s = sample_receipt_empty_text then Some (errorReceipt 0 '''')
             else if s = sample_receipt_coded_text then Some (errorReceipt 7 ''hi'')
             else None),
      JSON_stringify =
        (\<lambda>v. if v = errorReceipt 0 ''hi'' then sample_receipt_text
             else if v = errorReceipt 0 '''' then sample_receipt_empty_text
             else if v = errorReceipt 7 ''hi'' then sample_receipt_coded_text
             else ''null''),
      decodeParameter =
        (\<lambda>s. if s = sample_abi then Inr ''hi''
             else if s = ''00'' @ sample_abi then Inr ''''
             else if s = '''' then Inl (Error sample_abi_error_text)
             else Inl (Error ''invalid ABI data'')),
      Buffer_from_array = (\<lambda>xs. []),
      GW_RPC_REQUEST_ERROR = - 32099\<rparr>\<close>

text \<open>An upstream that rejects \<open>gw_ping\<close> and answers every other call with \<open>null\<close>.\<close>

definition sample_upstream :: upstream where
  "sample_upstream name args =
     (if name = ''gw_ping'' then Inl \<lparr>message = ''request to http://localhost:8119 failed''\<rparr>
      else Inr JNull)"

section \<open>Properties of buffers\<close>

lemma unat_byte_less: "unat (b :: byte) < 256"
  using unsigned_less [of b, where ?'a = nat] by simp

lemma le_uint_bound: "le_uint bs < 256 ^ length bs"
proof (induction bs)
  case Nil
  show ?case by simp
next
  case (Cons b bs)
  with unat_byte_less [of b] show ?case by simp
qed

lemma le_uint_sum: "le_uint bs = (\<Sum>i<length bs. unat (bs ! i) * 256 ^ i)"
proof (induction bs)
  case Nil
  show ?case by simp
next
  case (Cons b bs)
  have "(\<Sum>i<length (b # bs). unat ((b # bs) ! i) * 256 ^ i)
      = unat b + (\<Sum>i<length bs. unat (bs ! i) * 256 ^ Suc i)"
    by (simp add: sum.lessThan_Suc_shift del: sum.lessThan_Suc)
  also have "(\<Sum>i<length bs. unat (bs ! i) * 256 ^ Suc i)
      = 256 * (\<Sum>i<length bs. unat (bs ! i) * 256 ^ i)"
    by (simp add: sum_distrib_left mult.assoc mult.left_commute)
  finally show ?case using Cons by simp
qed

lemma length_Buffer_slice: "e \<le> length buf \<Longrightarrow> length (Buffer_slice buf s e) = e - s"
  by (simp add: Buffer_slice_def)

lemma nth_Buffer_slice:
  "s + i < e \<Longrightarrow> e \<le> length buf \<Longrightarrow> Buffer_slice buf s e ! i = buf ! (s + i)"
  by (simp add: Buffer_slice_def)

lemma Buffer_slice_nth:
  "e \<le> length buf \<Longrightarrow> Buffer_slice buf s e = map (\<lambda>i. buf ! i) [s..<e]"
  by (auto simp: list_eq_iff_nth_eq length_Buffer_slice nth_Buffer_slice)

lemma Buffer_slice_take: "e \<le> n \<Longrightarrow> Buffer_slice (take n buf) s e = Buffer_slice buf s e"
  by (simp add: Buffer_slice_def drop_take min_def)

lemma le_uint_4:
  assumes "length xs = 4"
  shows "le_uint xs =
    unat (xs ! 0) + unat (xs ! 1) * 2 ^ 8 + unat (xs ! 2) * 2 ^ 16 + unat (xs ! 3) * 2 ^ 24"
proof -
  from assms obtain a b c d where "xs = [a, b, c, d]"
    by (auto simp: length_Suc_conv eval_nat_numeral)
  then show ?thesis by simp
qed

lemma le_uint_8:
  assumes "length xs = 8"
  shows "le_uint xs =
    (unat (xs ! 0) + unat (xs ! 1) * 2 ^ 8 + unat (xs ! 2) * 2 ^ 16 + unat (xs ! 3) * 2 ^ 24)
    + (unat (xs ! 4) + unat (xs ! 5) * 2 ^ 8 + unat (xs ! 6) * 2 ^ 16
       + unat (xs ! 7) * 2 ^ 24) * 2 ^ 32"
proof -
  from assms obtain a b c d e f g h where "xs = [a, b, c, d, e, f, g, h]"
    by (auto simp: length_Suc_conv eval_nat_numeral)
  then show ?thesis by simp
qed

lemma readUInt32LE_le_uint:
  assumes "off + 4 \<le> length buf"
  shows "readUInt32LE buf off = Inr (le_uint (Buffer_slice buf off (off + 4)))"
proof -
  have "length (Buffer_slice buf off (off + 4)) = 4"
    using assms by (simp add: length_Buffer_slice)
  then show ?thesis
    using assms by (simp add: le_uint_4 nth_Buffer_slice readUInt32LE_def byte_at_def)
qed

lemma readBigUInt64LE_le_uint:
  assumes "off + 8 \<le> length buf"
  shows "readBigUInt64LE buf off = Inr (le_uint (Buffer_slice buf off (off + 8)))"
proof -
  have "length (Buffer_slice buf off (off + 8)) = 8"
    using assms by (simp add: length_Buffer_slice)
  then show ?thesis
    using assms
    by (simp add: le_uint_8 nth_Buffer_slice readBigUInt64LE_def byte_at_def Let_def)
qed

subsection \<open>Hexadecimal text\<close>

lemma unhex_hex_digit:
  assumes "d < 16"
  shows "unhex (hex_digit d) = Some d"
proof -
  have "d = 0 \<or> d = 1 \<or> d = 2 \<or> d = 3 \<or> d = 4 \<or> d = 5 \<or> d = 6 \<or> d = 7
      \<or> d = 8 \<or> d = 9 \<or> d = 10 \<or> d = 11 \<or> d = 12 \<or> d = 13 \<or> d = 14 \<or> d = 15"
    using assms by arith
  then show ?thesis
    by (auto simp: unhex_def hex_digit_def)
qed

lemma hex_decode_hex_byte: "hex_decode (hex_byte b @ rest) = b # hex_decode rest"
proof -
  have hi: "unat b div 16 < 16"
    using unat_byte_less [of b] by simp
  have "of_nat (unat b div 16 * 16 + unat b mod 16) = (of_nat (unat b) :: byte)"
    by simp
  then show ?thesis
    by (simp add: hex_byte_def unhex_hex_digit hi)
qed

lemma hex_decode_toString_hex: "hex_decode (toString_hex bs) = bs"
  by (induction bs) (simp_all add: toString_hex_def hex_decode_hex_byte)

lemma length_toString_hex: "length (toString_hex bs) = 2 * length bs"
  by (induction bs) (simp_all add: toString_hex_def hex_byte_def)

section \<open>Properties of the log decoder\<close>

lemma decode_buffer_40:
  assumes "length buf = 40"
  shows "decode_buffer buf =
    Inr \<lparr>gasUsed = le_uint (Buffer_slice buf 0 8),
         cumulativeGasUsed = le_uint (Buffer_slice buf 8 16),
         createdAddress = ''0x'' @ toString_hex (Buffer_slice buf 16 32),
         statusCode = le_uint (Buffer_slice buf 32 36)\<rparr>"
proof -
  have g: "readBigUInt64LE buf 0 = Inr (le_uint (Buffer_slice buf 0 8))"
    using readBigUInt64LE_le_uint [of 0 buf] assms by simp
  have c: "readBigUInt64LE buf 8 = Inr (le_uint (Buffer_slice buf 8 16))"
    using readBigUInt64LE_le_uint [of 8 buf] assms by simp
  have s: "readUInt32LE buf 32 = Inr (le_uint (Buffer_slice buf 32 36))"
    using readUInt32LE_le_uint [of 32 buf] assms by simp
  show ?thesis
    by (simp add: decode_buffer_def assms g c s)
qed

lemma decode_buffer_not_40:
  assumes "length buf \<noteq> 40"
  shows "decode_buffer buf =
    Inl (Error (''invalid system log raw data length: '' @ show_nat (length buf)))"
  using assms by (simp add: decode_buffer_def)

lemma sample_log_buffer:
  "Buffer_from_hex (drop 2 (data sample_log)) =
     [1, 0, 0, 0, 0, 0, 0, 0, 2, 0, 0, 0, 0, 0, 0, 0,
      1, 2, 3, 4, 5, 6, 7, 8, 9, 10, 11, 12, 13, 14, 15, 160,
      7, 0, 0, 0, 255, 255, 255, 255]"
  by (simp add: sample_log_def Buffer_from_hex_def unhex_def)

lemma sample_log'_buffer:
  "Buffer_from_hex (drop 2 (data sample_log')) =
     [1, 0, 0, 0, 0, 0, 0, 0, 2, 0, 0, 0, 0, 0, 0, 0,
      1, 2, 3, 4, 5, 6, 7, 8, 9, 10, 11, 12, 13, 14, 15, 160,
      7, 0, 0, 0, 0, 0, 0, 0]"
  by (simp add: sample_log'_def Buffer_from_hex_def unhex_def)

text \<open>
  C3.  The decoder throws its length-mismatch error, whose message ends with the length,
  exactly when the hex-decoded buffer is not 40 bytes long; it throws nothing else, so
  it fails for the lengths 0, 1, 39, 41 and 100 and returns a record for every buffer of
  40 bytes.
\<close>

theorem parsePolyjuiceSystemLog_length:
  fixes logItem :: LogItem
  assumes "n = length (Buffer_from_hex (drop 2 (data logItem)))"
  shows "(parsePolyjuiceSystemLog logItem =
            Inl (Error (''invalid system log raw data length: '' @ show_nat n))) = (n \<noteq> 40)
       \<and> (isl (parsePolyjuiceSystemLog logItem)) = (n \<noteq> 40)
       \<and> (n \<in> {0, 1, 39, 41, 100} \<longrightarrow> isl (parsePolyjuiceSystemLog logItem))
       \<and> (n = 40 \<longrightarrow> (\<exists>r. parsePolyjuiceSystemLog logItem = Inr r))"
proof (cases "n = 40")
  case True
  then show ?thesis
    using assms decode_buffer_40 [of "Buffer_from_hex (drop 2 (data logItem))"]
    by (simp add: parsePolyjuiceSystemLog_def)
next
  case False
  then show ?thesis
    using assms decode_buffer_not_40 [of "Buffer_from_hex (drop 2 (data logItem))"]
    by (simp add: parsePolyjuiceSystemLog_def)
qed

theorem parsePolyjuiceSystemLog_length_witness:
  "parsePolyjuiceSystemLog \<lparr>data = ''0x00''\<rparr> =
     Inl (Error ''invalid system log raw data length: 1'')
   \<and> (\<exists>r. parsePolyjuiceSystemLog sample_log = Inr r)"
proof -
  have one: "length (Buffer_from_hex (drop 2 (data \<lparr>data = ''0x00''\<rparr>))) = 1"
    by (simp add: Buffer_from_hex_def unhex_def)
  have forty: "length (Buffer_from_hex (drop 2 (data sample_log))) = 40"
    by (simp add: sample_log_buffer)
  have dec: "show_nat (Suc 0) = ''1''"
    by (simp add: show_nat.simps digit_char_def)
  show ?thesis
    using parsePolyjuiceSystemLog_length [OF one [symmetric]]
      parsePolyjuiceSystemLog_length [OF forty [symmetric]]
    by (simp add: dec)
qed

text \<open>
  C4.  For a log whose hex-decoded buffer has 40 bytes the decoder returns a record of
  four fields, in which \<open>gasUsed\<close> is the unsigned little-endian integer of the 8 bytes
  at offset 0, \<open>cumulativeGasUsed\<close> that of the 8 bytes at offset 8, \<open>createdAddress\<close>
  the text \<open>0x\<close> followed by the hexadecimal digits of the 16 bytes at offset 16, and
  \<open>statusCode\<close> the unsigned little-endian integer of the 4 bytes at offset 32; the
  integers fit 64, 64 and 32 bits.
\<close>

theorem parsePolyjuiceSystemLog_fields:
  fixes logItem :: LogItem
  assumes "buf = Buffer_from_hex (drop 2 (data logItem))"
    and "length buf = 40"
  shows "\<exists>r. parsePolyjuiceSystemLog logItem = Inr r
       \<and> r = \<lparr>gasUsed = gasUsed r, cumulativeGasUsed = cumulativeGasUsed r,
              createdAddress = createdAddress r, statusCode = statusCode r\<rparr>
       \<and> gasUsed r = le_uint (Buffer_slice buf 0 8)
       \<and> gasUsed r = (\<Sum>i<8. unat (buf ! i) * 256 ^ i)
       \<and> gasUsed r < 2 ^ 64
       \<and> cumulativeGasUsed r = le_uint (Buffer_slice buf 8 16)
       \<and> cumulativeGasUsed r = (\<Sum>i<8. unat (buf ! (8 + i)) * 256 ^ i)
       \<and> cumulativeGasUsed r < 2 ^ 64
       \<and> createdAddress r = ''0x'' @ toString_hex (Buffer_slice buf 16 32)
       \<and> length (createdAddress r) = 34
       \<and> statusCode r = le_uint (Buffer_slice buf 32 36)
       \<and> statusCode r = (\<Sum>i<4. unat (buf ! (32 + i)) * 256 ^ i)
       \<and> statusCode r < 2 ^ 32"
proof -
  let ?r = "\<lparr>gasUsed = le_uint (Buffer_slice buf 0 8),
         cumulativeGasUsed = le_uint (Buffer_slice buf 8 16),
         createdAddress = ''0x'' @ toString_hex (Buffer_slice buf 16 32),
         statusCode = le_uint (Buffer_slice buf 32 36)\<rparr>"
  have r: "parsePolyjuiceSystemLog logItem = Inr ?r"
    using assms decode_buffer_40 [of buf] by (simp add: parsePolyjuiceSystemLog_def)
  have g: "le_uint (Buffer_slice buf 0 8) = (\<Sum>i<8. unat (buf ! i) * 256 ^ i)"
    using assms(2) by (simp add: le_uint_sum length_Buffer_slice nth_Buffer_slice)
  have c: "le_uint (Buffer_slice buf 8 16) = (\<Sum>i<8. unat (buf ! (8 + i)) * 256 ^ i)"
    using assms(2) by (simp add: le_uint_sum length_Buffer_slice nth_Buffer_slice)
  have s: "le_uint (Buffer_slice buf 32 36) = (\<Sum>i<4. unat (buf ! (32 + i)) * 256 ^ i)"
    using assms(2) by (simp add: le_uint_sum length_Buffer_slice nth_Buffer_slice)
  have gb: "le_uint (Buffer_slice buf 0 8) < 2 ^ 64"
    using le_uint_bound [of "Buffer_slice buf 0 8"] assms(2)
    by (simp add: length_Buffer_slice)
  have cb: "le_uint (Buffer_slice buf 8 16) < 2 ^ 64"
    using le_uint_bound [of "Buffer_slice buf 8 16"] assms(2)
    by (simp add: length_Buffer_slice)
  have sb: "le_uint (Buffer_slice buf 32 36) < 2 ^ 32"
    using le_uint_bound [of "Buffer_slice buf 32 36"] assms(2)
    by (simp add: length_Buffer_slice)
  have al: "length (''0x'' @ toString_hex (Buffer_slice buf 16 32)) = 34"
    using assms(2) by (simp add: length_toString_hex length_Buffer_slice)
  show ?thesis
    unfolding r using g c s gb cb sb al by simp
qed

theorem parsePolyjuiceSystemLog_fields_witness:
  "length (Buffer_from_hex (drop 2 (data sample_log))) = 40
   \<and> (\<exists>r. parsePolyjuiceSystemLog sample_log = Inr r
       \<and> gasUsed r = 1 \<and> cumulativeGasUsed r = 2
       \<and> createdAddress r = ''0x0102030405060708090a0b0c0d0e0fa0''
       \<and> statusCode r = 7)"
proof -
  have len: "length (Buffer_from_hex (drop 2 (data sample_log))) = 40"
    by (simp add: sample_log_buffer)
  obtain r where r: "parsePolyjuiceSystemLog sample_log = Inr r"
      and g: "gasUsed r = le_uint (Buffer_slice (Buffer_from_hex (drop 2 (data sample_log))) 0 8)"
      and c: "cumulativeGasUsed r = le_uint (Buffer_slice (Buffer_from_hex (drop 2 (data sample_log))) 8 16)"
      and a: "createdAddress r = ''0x'' @ toString_hex (Buffer_slice (Buffer_from_hex (drop 2 (data sample_log))) 16 32)"
      and s: "statusCode r = le_uint (Buffer_slice (Buffer_from_hex (drop 2 (data sample_log))) 32 36)"
    using parsePolyjuiceSystemLog_fields [OF refl len] by blast
  have "gasUsed r = 1"
    unfolding g by (simp add: sample_log_buffer Buffer_slice_def)
  moreover have "cumulativeGasUsed r = 2"
    unfolding c by (simp add: sample_log_buffer Buffer_slice_def)
  moreover have "createdAddress r = ''0x0102030405060708090a0b0c0d0e0fa0''"
    unfolding a
    by (simp add: sample_log_buffer Buffer_slice_def toString_hex_def hex_byte_def hex_digit_def)
  moreover have "statusCode r = 7"
    unfolding s by (simp add: sample_log_buffer Buffer_slice_def)
  ultimately show ?thesis using len r by blast
qed

text \<open>
  C5.  For a log whose hex-decoded buffer has 40 bytes, the returned \<open>createdAddress\<close>
  starts with \<open>0x\<close>; hex-decoding the rest gives the bytes 16 to 31 of the buffer, and
  encoding these bytes again, behind \<open>0x\<close>, gives the same text.
\<close>

theorem createdAddress_roundtrip:
  fixes logItem :: LogItem
  assumes "buf = Buffer_from_hex (drop 2 (data logItem))"
    and "length buf = 40"
  shows "\<exists>r. parsePolyjuiceSystemLog logItem = Inr r
       \<and> take 2 (createdAddress r) = ''0x''
       \<and> Buffer_from_hex (drop 2 (createdAddress r)) = map (\<lambda>i. buf ! i) [16..<32]
       \<and> ''0x'' @ toString_hex (Buffer_from_hex (drop 2 (createdAddress r))) = createdAddress r"
proof -
  let ?a = "''0x'' @ toString_hex (Buffer_slice buf 16 32)"
  let ?r = "\<lparr>gasUsed = le_uint (Buffer_slice buf 0 8),
         cumulativeGasUsed = le_uint (Buffer_slice buf 8 16),
         createdAddress = ?a,
         statusCode = le_uint (Buffer_slice buf 32 36)\<rparr>"
  have r: "parsePolyjuiceSystemLog logItem = Inr ?r"
    using assms decode_buffer_40 [of buf] by (simp add: parsePolyjuiceSystemLog_def)
  have dec: "Buffer_from_hex (drop 2 ?a) = Buffer_slice buf 16 32"
    by (simp add: Buffer_from_hex_def hex_decode_toString_hex)
  have bytes: "Buffer_slice buf 16 32 = map (\<lambda>i. buf ! i) [16..<32]"
    using assms(2) by (simp add: Buffer_slice_nth)
  show ?thesis
    unfolding r using dec bytes by simp
qed

theorem createdAddress_roundtrip_witness:
  "length (Buffer_from_hex (drop 2 (data sample_log))) = 40
   \<and> (\<exists>r. parsePolyjuiceSystemLog sample_log = Inr r
       \<and> createdAddress r = ''0x0102030405060708090a0b0c0d0e0fa0''
       \<and> Buffer_from_hex (drop 2 (createdAddress r)) =
            [1, 2, 3, 4, 5, 6, 7, 8, 9, 10, 11, 12, 13, 14, 15, 160]
       \<and> ''0x'' @ toString_hex (Buffer_from_hex (drop 2 (createdAddress r))) = createdAddress r)"
proof -
  have len: "length (Buffer_from_hex (drop 2 (data sample_log))) = 40"
    by (simp add: sample_log_buffer)
  obtain r where r: "parsePolyjuiceSystemLog sample_log = Inr r"
      and dec: "Buffer_from_hex (drop 2 (createdAddress r)) =
          map (\<lambda>i. Buffer_from_hex (drop 2 (data sample_log)) ! i) [16..<32]"
      and again: "''0x'' @ toString_hex (Buffer_from_hex (drop 2 (createdAddress r))) = createdAddress r"
    using createdAddress_roundtrip [OF refl len] by blast
  have bytes: "Buffer_from_hex (drop 2 (createdAddress r)) =
      [1, 2, 3, 4, 5, 6, 7, 8, 9, 10, 11, 12, 13, 14, 15, 160]"
    unfolding dec by (simp add: sample_log_buffer upt_rec)
  have "createdAddress r = ''0x0102030405060708090a0b0c0d0e0fa0''"
    using again unfolding bytes
    by (simp add: toString_hex_def hex_byte_def hex_digit_def)
  then show ?thesis using len r bytes again by blast
qed

text \<open>
  C9.  Two logs whose hex-decoded buffers have 40 bytes each and agree on the bytes 0 to
  35 are decoded to the same record: the bytes 36 to 39 reach no field.
\<close>

theorem trailing_bytes_not_read:
  fixes logItem logItem' :: LogItem
  assumes "buf = Buffer_from_hex (drop 2 (data logItem))"
    and "buf' = Buffer_from_hex (drop 2 (data logItem'))"
    and "length buf = 40"
    and "length buf' = 40"
    and "take 36 buf = take 36 buf'"
  shows "parsePolyjuiceSystemLog logItem = parsePolyjuiceSystemLog logItem'
       \<and> (\<exists>r. parsePolyjuiceSystemLog logItem = Inr r)"
proof -
  have eq: "Buffer_slice buf s e = Buffer_slice buf' s e" if "e \<le> 36" for s e
    using Buffer_slice_take [OF that, of buf s] Buffer_slice_take [OF that, of buf' s] assms(5)
    by simp
  have "decode_buffer buf = decode_buffer buf'"
    using assms(3,4) by (simp add: decode_buffer_40 eq)
  then show ?thesis
    using assms(1,2,3) decode_buffer_40 [of buf] by (simp add: parsePolyjuiceSystemLog_def)
qed

theorem trailing_bytes_not_read_witness:
  "Buffer_from_hex (drop 2 (data sample_log)) \<noteq> Buffer_from_hex (drop 2 (data sample_log'))
   \<and> length (Buffer_from_hex (drop 2 (data sample_log))) = 40
   \<and> length (Buffer_from_hex (drop 2 (data sample_log'))) = 40
   \<and> take 36 (Buffer_from_hex (drop 2 (data sample_log))) =
       take 36 (Buffer_from_hex (drop 2 (data sample_log')))
   \<and> parsePolyjuiceSystemLog sample_log = parsePolyjuiceSystemLog sample_log'"
proof -
  have len: "length (Buffer_from_hex (drop 2 (data sample_log))) = 40"
    by (simp add: sample_log_buffer)
  have len': "length (Buffer_from_hex (drop 2 (data sample_log'))) = 40"
    by (simp add: sample_log'_buffer)
  have same: "take 36 (Buffer_from_hex (drop 2 (data sample_log))) =
       take 36 (Buffer_from_hex (drop 2 (data sample_log')))"
    by (simp add: sample_log_buffer sample_log'_buffer)
  have differ: "Buffer_from_hex (drop 2 (data sample_log)) \<noteq> Buffer_from_hex (drop 2 (data sample_log'))"
    by (simp add: sample_log_buffer sample_log'_buffer)
  show ?thesis
    using trailing_bytes_not_read [OF refl refl len len' same] len len' same differ by simp
qed

section \<open>Properties of the error translator\<close>

lemma startsWith_append: "startsWith (p @ s) p"
  by (simp add: startsWith_def)

lemma prefixes_exclusive:
  "\<not> (startsWith m ''JSONRPCError: server error '' \<and> startsWith m ''request to'')"
  by (cases m) (auto simp: startsWith_def)

lemma decode_buffer_cases:
  "(\<exists>r. decode_buffer buf = Inr r)
   \<or> decode_buffer buf = Inl (Error (''invalid system log raw data length: '' @ show_nat (length buf)))"
  using decode_buffer_40 [of buf] decode_buffer_not_40 [of buf] by (cases "length buf = 40") auto

lemma get_prop_error: "get_prop v k = Inl e \<Longrightarrow> e = TypeError"
  by (cases v) auto

lemma logItem_buffer_error: "logItem_buffer ext v = Inl e \<Longrightarrow> e = TypeError"
  by (auto simp: logItem_buffer_def split: sum.splits jsval.splits dest: get_prop_error)

lemma parsePolyjuiceSystemLog_untyped_error:
  assumes "parsePolyjuiceSystemLog_untyped ext v = Inl e"
  shows "e = TypeError \<or> (\<exists>n. e = Error (''invalid system log raw data length: '' @ show_nat n))"
proof (cases "logItem_buffer ext v")
  case (Inl x)
  then show ?thesis
    using assms logItem_buffer_error [of ext v x] by (simp add: parsePolyjuiceSystemLog_untyped_def)
next
  case (Inr buf)
  then show ?thesis
    using assms decode_buffer_cases [of buf] by (auto simp: parsePolyjuiceSystemLog_untyped_def)
qed

lemma substring10_error: "substring10 v = Inl e \<Longrightarrow> e = TypeError"
  by (auto simp: substring10_def split: jsval.splits)

lemma revert_branch_success:
  assumes "JSON_parse ext jsonErr = Some err"
    and "get_prop err ''data'' = Inr err_data"
    and "get_prop err_data ''last_log'' = Inr last_log"
    and "parsePolyjuiceSystemLog_untyped ext last_log = Inr log"
    and "get_prop err_data ''return_data'' = Inr return_data"
    and "substring10 return_data = Inr abi_data"
    and "decodeParameter ext abi_data = Inr reason"
    and "get_prop err ''code'' = Inr code"
  shows "revert_branch ext jsonErr =
    Inl (RpcError code (JSON_stringify ext (errorReceipt (statusCode log) reason)))"
  using assms by (simp add: revert_branch_def)

lemma revert_branch_outcomes:
  "\<exists>x. revert_branch ext jsonErr = Inl x
     \<and> (x = SyntaxError
        \<or> x = TypeError
        \<or> (\<exists>n. x = Error (''invalid system log raw data length: '' @ show_nat n))
        \<or> (\<exists>s. decodeParameter ext s = Inl x)
        \<or> (\<exists>code status reason.
             x = RpcError code (JSON_stringify ext (errorReceipt status reason))))"
proof (cases "JSON_parse ext jsonErr")
  case None
  then show ?thesis by (simp add: revert_branch_def)
next
  case (Some err)
  note parsed = this
  show ?thesis
  proof (cases "get_prop err ''data''")
    case (Inl e)
    then show ?thesis
      using parsed get_prop_error [OF Inl] by (simp add: revert_branch_def)
  next
    case (Inr err_data)
    note d = this
    show ?thesis
    proof (cases "get_prop err_data ''last_log''")
      case (Inl e)
      then show ?thesis
        using parsed d get_prop_error [OF Inl] by (simp add: revert_branch_def)
    next
      case (Inr last_log)
      note l = this
      show ?thesis
      proof (cases "parsePolyjuiceSystemLog_untyped ext last_log")
        case (Inl e)
        then show ?thesis
          using parsed d l parsePolyjuiceSystemLog_untyped_error [OF Inl]
          by (auto simp: revert_branch_def)
      next
        case (Inr log)
        note g = this
        show ?thesis
        proof (cases "get_prop err_data ''return_data''")
          case (Inl e)
          then show ?thesis
            using parsed d l g get_prop_error [OF Inl] by (simp add: revert_branch_def)
        next
          case (Inr return_data)
          note r = this
          show ?thesis
          proof (cases "substring10 return_data")
            case (Inl e)
            then show ?thesis
              using parsed d l g r substring10_error [OF Inl] by (simp add: revert_branch_def)
          next
            case (Inr abi_data)
            note a = this
            show ?thesis
            proof (cases "decodeParameter ext abi_data")
              case (Inl e)
              then show ?thesis
                using parsed d l g r a by (auto simp: revert_branch_def)
            next
              case (Inr reason)
              note s = this
              show ?thesis
              proof (cases "get_prop err ''code''")
                case (Inl e)
                then show ?thesis
                  using parsed d l g r a s get_prop_error [OF Inl]
                  by (simp add: revert_branch_def)
              next
                case (Inr code)
                have "revert_branch ext jsonErr =
                    Inl (RpcError code (JSON_stringify ext (errorReceipt (statusCode log) reason)))"
                  using revert_branch_success [OF parsed d l g r a s Inr] .
                then show ?thesis by blast
              qed
            qed
          qed
        qed
      qed
    qed
  qed
qed

lemma prefix_length: "length ''JSONRPCError: server error '' = 27"
  by simp

lemma parseError_unfold:
  "parseError ext error =
     (if startsWith (message error) ''JSONRPCError: server error '' then
        revert_branch ext (drop 27 (message error))
      else if startsWith (message error) ''request to'' then Inl (Error (message error))
      else Inl (RpcError (JNumber (GW_RPC_REQUEST_ERROR ext)) (message error)))"
  by (simp only: parseError_def Let_def prefix_length)

lemma parseError_raises: "\<exists>x. parseError ext error = Inl x"
  using revert_branch_outcomes [of ext "drop 27 (message error)"]
  by (auto simp: parseError_unfold)


subsection \<open>The samples\<close>

lemma sample_parse_revert: "JSON_parse sample_externals sample_revert_text = Some sample_revert_json"
  by (simp add: sample_externals_def)



lemma sample_parse_receipt:
  "JSON_parse sample_externals sample_receipt_text = Some (errorReceipt 0 ''hi'')"
  by (simp add: sample_externals_def sample_receipt_text_def sample_short_text_def
      sample_revert_text_def)

lemma sample_parse_empty: "JSON_parse sample_externals ''{}'' = Some (JObject [])"
  by (simp add: sample_externals_def sample_receipt_text_def sample_short_text_def
      sample_revert_text_def)

lemmas sample_text_defs =
  sample_revert_text_def sample_short_text_def sample_receipt_text_def
  sample_section8_text_def sample_coded_text_def sample_undecodable_text_def
  sample_nocode_text_def sample_receipt_empty_text_def sample_receipt_coded_text_def
  sample_zero_hex_def sample_return_data_def sample_log_def

lemma sample_parse_garbage: "JSON_parse sample_externals ''not json'' = None"
  by (simp add: sample_externals_def sample_text_defs)

lemma sample_parse_section8:
  "JSON_parse sample_externals sample_section8_text = Some sample_section8_json"
  by (simp add: sample_externals_def sample_text_defs)

lemma sample_parse_coded: "JSON_parse sample_externals sample_coded_text = Some sample_coded_json"
  by (simp add: sample_externals_def sample_text_defs)

lemma sample_parse_undecodable:
  "JSON_parse sample_externals sample_undecodable_text = Some sample_undecodable_json"
  by (simp add: sample_externals_def sample_text_defs)

lemma sample_parse_nocode: "JSON_parse sample_externals sample_nocode_text = Some sample_nocode_json"
  by (simp add: sample_externals_def sample_text_defs)

lemma sample_parse_receipt_empty:
  "JSON_parse sample_externals sample_receipt_empty_text = Some (errorReceipt 0 '''')"
  by (simp add: sample_externals_def sample_text_defs)

lemma sample_parse_receipt_coded:
  "JSON_parse sample_externals sample_receipt_coded_text = Some (errorReceipt 7 ''hi'')"
  by (simp add: sample_externals_def sample_text_defs)

lemma sample_stringify_empty:
  "JSON_stringify sample_externals (errorReceipt 0 '''') = sample_receipt_empty_text"
  by (simp add: sample_externals_def errorReceipt_def)

lemma sample_stringify_coded:
  "JSON_stringify sample_externals (errorReceipt 7 ''hi'') = sample_receipt_coded_text"
  by (simp add: sample_externals_def errorReceipt_def)

lemma sample_decode_behind_zeros:
  "decodeParameter sample_externals (''00'' @ sample_abi) = Inr ''''"
  by (simp add: sample_externals_def sample_abi_def)

lemma sample_decode_nothing:
  "decodeParameter sample_externals '''' = Inl (Error sample_abi_error_text)"
  by (simp add: sample_externals_def sample_abi_def)

lemma sample_stringify:
  "JSON_stringify sample_externals (errorReceipt 0 ''hi'') = sample_receipt_text"
  by (simp add: sample_externals_def)

lemma sample_decode: "decodeParameter sample_externals (drop 10 sample_return_data) = Inr ''hi''"
  by (simp add: sample_externals_def sample_return_data_def)

lemma sample_zero_buffer:
  "Buffer_from_hex (drop 2 sample_zero_hex) =
     [0, 0, 0, 0, 0, 0, 0, 0, 0, 0, 0, 0, 0, 0, 0, 0, 0, 0, 0, 0,
      0, 0, 0, 0, 0, 0, 0, 0, 0, 0, 0, 0, 0, 0, 0, 0, 0, 0, 0, 0]"
  by (simp add: sample_zero_hex_def Buffer_from_hex_def unhex_def)

lemma sample_zero_length: "length (Buffer_from_hex (drop 2 sample_zero_hex)) = 40"
  by (simp add: sample_zero_buffer)

lemma sample_zero_log:
  "parsePolyjuiceSystemLog \<lparr>data = sample_zero_hex\<rparr> =
     Inr \<lparr>gasUsed = 0, cumulativeGasUsed = 0,
          createdAddress = ''0x00000000000000000000000000000000'', statusCode = 0\<rparr>"
  by (simp add: parsePolyjuiceSystemLog_def sample_zero_buffer decode_buffer_def
      readBigUInt64LE_def readUInt32LE_def byte_at_def Buffer_slice_def toString_hex_def
      hex_byte_def hex_digit_def)

lemma sample_code: "get_prop sample_revert_json ''code'' = Inr (JNumber 5)"
  by (simp add: sample_revert_json_def)

lemma sample_data: "get_prop sample_revert_json ''data'' = Inr sample_revert_data"
  by (simp add: sample_revert_json_def)

lemma sample_data_last_log: "get_prop sample_revert_data ''last_log'' = Inr sample_last_log"
  by (simp add: sample_revert_data_def)

lemma sample_data_return_data:
  "get_prop sample_revert_data ''return_data'' = Inr (JString sample_return_data)"
  by (simp add: sample_revert_data_def)

lemma sample_last_log_data: "get_prop sample_last_log ''data'' = Inr (JString sample_zero_hex)"
  by (simp add: sample_last_log_def)

lemma sample_request_to:
  "startsWith ''request to http://localhost:8119 failed'' ''request to''"
  by (simp add: startsWith_def)

lemma sample_neither:
  "\<not> startsWith ''boom'' ''JSONRPCError: server error '' \<and> \<not> startsWith ''boom'' ''request to''"
  by (simp add: startsWith_def)

subsection \<open>The revert branch\<close>

lemma untyped_string_log:
  assumes "get_prop last_log ''data'' = Inr (JString hex)"
  shows "parsePolyjuiceSystemLog_untyped ext last_log = parsePolyjuiceSystemLog \<lparr>data = hex\<rparr>"
  using assms
  by (simp add: parsePolyjuiceSystemLog_untyped_def logItem_buffer_def parsePolyjuiceSystemLog_def)

lemma parseError_revert_general:
  assumes "message error = ''JSONRPCError: server error '' @ jsonErr"
    and "JSON_parse ext jsonErr = Some err"
    and "get_prop err ''code'' = Inr code"
    and "get_prop err ''data'' = Inr err_data"
    and "get_prop err_data ''last_log'' = Inr last_log"
    and "get_prop last_log ''data'' = Inr (JString hex)"
    and "parsePolyjuiceSystemLog \<lparr>data = hex\<rparr> = Inr log"
    and "get_prop err_data ''return_data'' = Inr (JString return_data)"
    and "decodeParameter ext (drop 10 return_data) = Inr reason"
  shows "parseError ext error =
    Inl (RpcError code (JSON_stringify ext (errorReceipt (statusCode log) reason)))"
proof -
  have p: "startsWith (message error) ''JSONRPCError: server error ''"
    unfolding assms(1) by (rule startsWith_append)
  have d: "drop 27 (message error) = jsonErr"
    unfolding assms(1) by simp
  have l: "parsePolyjuiceSystemLog_untyped ext last_log = Inr log"
    using untyped_string_log [OF assms(6)] assms(7) by simp
  have s: "substring10 (JString return_data) = Inr (drop 10 return_data)"
    by (simp add: substring10_def)
  show ?thesis
    using revert_branch_success [OF assms(2) assms(4) assms(5) l assms(8) s assms(9) assms(3)]
    by (simp add: parseError_unfold p d)
qed

lemma sum_lessThan_4: "(\<Sum>i<4::nat. f i) = f 0 + f 1 + f 2 + (f 3 :: nat)"
  by (simp add: eval_nat_numeral)

lemma status_code_of_log:
  assumes "length (Buffer_from_hex (drop 2 hex)) = 40"
  shows "\<exists>log. parsePolyjuiceSystemLog \<lparr>data = hex\<rparr> = Inr log
       \<and> statusCode log = (\<Sum>i<4. unat (Buffer_from_hex (drop 2 hex) ! (32 + i)) * 256 ^ i)"
proof -
  let ?buf = "Buffer_from_hex (drop 2 hex)"
  have "le_uint (Buffer_slice ?buf 32 36) = (\<Sum>i<4. unat (?buf ! (32 + i)) * 256 ^ i)"
    using assms by (simp add: le_uint_sum length_Buffer_slice nth_Buffer_slice)
  then show ?thesis
    using decode_buffer_40 [OF assms] by (simp add: parsePolyjuiceSystemLog_def)
qed

lemma parseError_revert_undecodable:
  assumes "message error = ''JSONRPCError: server error '' @ jsonErr"
    and "JSON_parse ext jsonErr = Some err"
    and "get_prop err ''data'' = Inr err_data"
    and "get_prop err_data ''last_log'' = Inr last_log"
    and "get_prop last_log ''data'' = Inr (JString hex)"
    and "length (Buffer_from_hex (drop 2 hex)) = 40"
    and "get_prop err_data ''return_data'' = Inr (JString return_data)"
    and "decodeParameter ext (drop 10 return_data) = Inl e"
  shows "parseError ext error = Inl e"
proof -
  have p: "startsWith (message error) ''JSONRPCError: server error ''"
    unfolding assms(1) by (rule startsWith_append)
  have d: "drop 27 (message error) = jsonErr"
    unfolding assms(1) by simp
  obtain log where "parsePolyjuiceSystemLog \<lparr>data = hex\<rparr> = Inr log"
    using status_code_of_log [OF assms(6)] by blast
  then have l: "parsePolyjuiceSystemLog_untyped ext last_log = Inr log"
    using untyped_string_log [OF assms(5)] by simp
  have s: "substring10 (JString return_data) = Inr (drop 10 return_data)"
    by (simp add: substring10_def)
  have "revert_branch ext jsonErr = Inl e"
    by (simp add: revert_branch_def assms(2,3,4,7,8) l s del: get_prop.simps)
  then show ?thesis
    by (simp add: parseError_unfold p d)
qed

lemma zero_hex_text: "''0x'' @ concat (replicate 40 ''00'') = sample_zero_hex"
  by (simp add: sample_zero_hex_def eval_nat_numeral)

lemma zero_status_sum:
  "(\<Sum>i<4. unat (Buffer_from_hex (drop 2 sample_zero_hex) ! (32 + i)) * 256 ^ i) = 0"
  by (simp add: sum_lessThan_4 sample_zero_buffer)

lemma sample_log_status_sum:
  "(\<Sum>i<4. unat (Buffer_from_hex (drop 2 (data sample_log)) ! (32 + i)) * 256 ^ i) = 7"
  by (simp add: sum_lessThan_4 sample_log_buffer)

lemma ten_zeros_dropped: "drop 10 (''0x'' @ replicate 10 (CHR ''0'') @ abi) = ''00'' @ abi"
  by (simp add: eval_nat_numeral)

lemma sample_last_log_decoded:
  "parsePolyjuiceSystemLog_untyped ext sample_last_log =
     Inr \<lparr>gasUsed = 0, cumulativeGasUsed = 0,
          createdAddress = ''0x00000000000000000000000000000000'', statusCode = 0\<rparr>"
  using untyped_string_log [OF sample_last_log_data, of ext] sample_zero_log by simp

section \<open>The claims about the error translator\<close>

text \<open>
  C2, as the code has it.  Let the message be the revert prefix followed by a text that
  \<open>JSON.parse\<close> turns into a value with a \<open>code\<close> and a \<open>data\<close> whose \<open>last_log.data\<close>
  is a string that hex-decodes, after its first two characters, to 40 bytes, and whose
  \<open>return_data\<close> is a string that the ABI coder decodes, after its first 10 characters,
  to \<open>reason\<close>.  Then the translator throws an \<open>RpcError\<close> with that code whose message
  is \<open>JSON.stringify\<close> of the object of \<open>status_code\<close>, the little-endian integer of
  the bytes 32 to 35 of the log, and \<open>status_reason\<close>, the decoded string.  When the
  coder throws instead, the translator throws what the coder throws.  For the
  example of section 8, with code 5, a log of 40 zero bytes and return data of \<open>0x\<close>,
  ten zeros and ABI data, the coder is given two zeros followed by the ABI data; when it
  decodes them to \<open>reason\<close>, the error thrown has code 5 and as message the
  serialization of status code 0 and \<open>reason\<close>, which parses to that object where
  \<open>JSON.parse\<close> inverts \<open>JSON.stringify\<close> on it.
\<close>

theorem parseError_revert:
  "(message error = ''JSONRPCError: server error '' @ jsonErr
      \<and> JSON_parse ext jsonErr = Some err
      \<and> get_prop err ''code'' = Inr code
      \<and> get_prop err ''data'' = Inr err_data
      \<and> get_prop err_data ''last_log'' = Inr last_log
      \<and> get_prop last_log ''data'' = Inr (JString hex)
      \<and> length (Buffer_from_hex (drop 2 hex)) = 40
      \<and> get_prop err_data ''return_data'' = Inr (JString return_data)
      \<and> decodeParameter ext (drop 10 return_data) = Inr reason \<longrightarrow>
    parseError ext error =
      Inl (RpcError code
            (JSON_stringify ext
               (JObject
                  [(''status_code'',
                    JNumber (int (\<Sum>i<4. unat (Buffer_from_hex (drop 2 hex) ! (32 + i)) * 256 ^ i))),
                   (''status_reason'', JString reason)]))))
   \<and> (message error = ''JSONRPCError: server error '' @ jsonErr
      \<and> JSON_parse ext jsonErr = Some err
      \<and> get_prop err ''data'' = Inr err_data
      \<and> get_prop err_data ''last_log'' = Inr last_log
      \<and> get_prop last_log ''data'' = Inr (JString hex)
      \<and> length (Buffer_from_hex (drop 2 hex)) = 40
      \<and> get_prop err_data ''return_data'' = Inr (JString return_data)
      \<and> decodeParameter ext (drop 10 return_data) = Inl thrown \<longrightarrow>
    parseError ext error = Inl thrown)
   \<and> (message error = ''JSONRPCError: server error '' @ jsonErr
      \<and> JSON_parse ext jsonErr =
          Some (JObject
                 [(''code'', JNumber 5),
                  (''data'',
                   JObject
                     [(''last_log'',
                       JObject [(''data'', JString (''0x'' @ concat (replicate 40 ''00'')))]),
                      (''return_data'',
                       JString (''0x'' @ replicate 10 (CHR ''0'') @ abi))])])
      \<and> decodeParameter ext (''00'' @ abi) = Inr reason \<longrightarrow>
    parseError ext error =
      Inl (RpcError (JNumber 5)
            (JSON_stringify ext
               (JObject [(''status_code'', JNumber 0), (''status_reason'', JString reason)])))
    \<and> (JSON_parse ext
          (JSON_stringify ext
             (JObject [(''status_code'', JNumber 0), (''status_reason'', JString reason)]))
        = Some (JObject [(''status_code'', JNumber 0), (''status_reason'', JString reason)])
       \<longrightarrow> (\<exists>m. parseError ext error = Inl (RpcError (JNumber 5) m)
             \<and> JSON_parse ext m =
                 Some (JObject [(''status_code'', JNumber 0),
                                (''status_reason'', JString reason)]))))"
proof -
  have general: "parseError ext e =
      Inl (RpcError c
            (JSON_stringify ext
               (JObject
                  [(''status_code'',
                    JNumber (int (\<Sum>i<4. unat (Buffer_from_hex (drop 2 h) ! (32 + i)) * 256 ^ i))),
                   (''status_reason'', JString r)])))"
    if g1: "message e = ''JSONRPCError: server error '' @ t"
      and g2: "JSON_parse ext t = Some v"
      and g3: "get_prop v ''code'' = Inr c"
      and g4: "get_prop v ''data'' = Inr d"
      and g5: "get_prop d ''last_log'' = Inr l"
      and g6: "get_prop l ''data'' = Inr (JString h)"
      and g7: "length (Buffer_from_hex (drop 2 h)) = 40"
      and g8: "get_prop d ''return_data'' = Inr (JString rd)"
      and g9: "decodeParameter ext (drop 10 rd) = Inr r"
    for e t v c d l h rd r
  proof -
    obtain log where log: "parsePolyjuiceSystemLog \<lparr>data = h\<rparr> = Inr log"
      and status: "statusCode log =
        (\<Sum>i<4. unat (Buffer_from_hex (drop 2 h) ! (32 + i)) * 256 ^ i)"
      using status_code_of_log [OF g7] by blast
    show ?thesis
      using parseError_revert_general [OF g1 g2 g3 g4 g5 g6 log g8 g9]
      by (simp add: errorReceipt_def status)
  qed
  have example: "parseError ext error =
      Inl (RpcError (JNumber 5)
            (JSON_stringify ext
               (JObject [(''status_code'', JNumber 0), (''status_reason'', JString reason)])))"
    if m: "message error = ''JSONRPCError: server error '' @ jsonErr"
      and p: "JSON_parse ext jsonErr =
          Some (JObject
                 [(''code'', JNumber 5),
                  (''data'',
                   JObject
                     [(''last_log'',
                       JObject [(''data'', JString (''0x'' @ concat (replicate 40 ''00'')))]),
                      (''return_data'',
                       JString (''0x'' @ replicate 10 (CHR ''0'') @ abi))])])"
      and c: "decodeParameter ext (''00'' @ abi) = Inr reason"
  proof -
    have c': "decodeParameter ext (drop 10 (''0x'' @ replicate 10 (CHR ''0'') @ abi)) = Inr reason"
      using c by (simp only: ten_zeros_dropped)
    have "parseError ext error =
      Inl (RpcError (JNumber 5)
            (JSON_stringify ext
               (JObject
                  [(''status_code'',
                    JNumber (int (\<Sum>i<4. unat (Buffer_from_hex (drop 2 sample_zero_hex) ! (32 + i))
                       * 256 ^ i))),
                   (''status_reason'', JString reason)])))"
    proof (rule general [OF m p _ _ _ _ _ _ c'])
      show "get_prop
          (JObject
                 [(''code'', JNumber 5),
                  (''data'',
                   JObject
                     [(''last_log'',
                       JObject [(''data'', JString (''0x'' @ concat (replicate 40 ''00'')))]),
                      (''return_data'',
                       JString (''0x'' @ replicate 10 (CHR ''0'') @ abi))])]) ''code''
          = Inr (JNumber 5)"
        by simp
      show "get_prop
          (JObject
                 [(''code'', JNumber 5),
                  (''data'',
                   JObject
                     [(''last_log'',
                       JObject [(''data'', JString (''0x'' @ concat (replicate 40 ''00'')))]),
                      (''return_data'',
                       JString (''0x'' @ replicate 10 (CHR ''0'') @ abi))])]) ''data''
          = Inr (JObject
                     [(''last_log'', JObject [(''data'', JString sample_zero_hex)]),
                      (''return_data'',
                       JString (''0x'' @ replicate 10 (CHR ''0'') @ abi))])"
        by (simp add: zero_hex_text [symmetric])
      show "get_prop
          (JObject
                     [(''last_log'', JObject [(''data'', JString sample_zero_hex)]),
                      (''return_data'',
                       JString (''0x'' @ replicate 10 (CHR ''0'') @ abi))]) ''last_log''
          = Inr (JObject [(''data'', JString sample_zero_hex)])"
        by simp
      show "get_prop (JObject [(''data'', JString sample_zero_hex)]) ''data''
          = Inr (JString sample_zero_hex)"
        by simp
      show "length (Buffer_from_hex (drop 2 sample_zero_hex)) = 40"
        by (rule sample_zero_length)
      show "get_prop
          (JObject
                     [(''last_log'', JObject [(''data'', JString sample_zero_hex)]),
                      (''return_data'',
                       JString (''0x'' @ replicate 10 (CHR ''0'') @ abi))]) ''return_data''
          = Inr (JString (''0x'' @ replicate 10 (CHR ''0'') @ abi))"
        by simp
    qed
    then show ?thesis
      by (simp only: zero_status_sum) simp
  qed
  show ?thesis
  proof (intro conjI impI)
    assume "message error = ''JSONRPCError: server error '' @ jsonErr
      \<and> JSON_parse ext jsonErr = Some err
      \<and> get_prop err ''code'' = Inr code
      \<and> get_prop err ''data'' = Inr err_data
      \<and> get_prop err_data ''last_log'' = Inr last_log
      \<and> get_prop last_log ''data'' = Inr (JString hex)
      \<and> length (Buffer_from_hex (drop 2 hex)) = 40
      \<and> get_prop err_data ''return_data'' = Inr (JString return_data)
      \<and> decodeParameter ext (drop 10 return_data) = Inr reason"
    then show "parseError ext error =
      Inl (RpcError code
            (JSON_stringify ext
               (JObject
                  [(''status_code'',
                    JNumber (int (\<Sum>i<4. unat (Buffer_from_hex (drop 2 hex) ! (32 + i)) * 256 ^ i))),
                   (''status_reason'', JString reason)])))"
      using general [of error jsonErr err code err_data last_log hex return_data reason]
      by blast
  next
    assume "message error = ''JSONRPCError: server error '' @ jsonErr
      \<and> JSON_parse ext jsonErr = Some err
      \<and> get_prop err ''data'' = Inr err_data
      \<and> get_prop err_data ''last_log'' = Inr last_log
      \<and> get_prop last_log ''data'' = Inr (JString hex)
      \<and> length (Buffer_from_hex (drop 2 hex)) = 40
      \<and> get_prop err_data ''return_data'' = Inr (JString return_data)
      \<and> decodeParameter ext (drop 10 return_data) = Inl thrown"
    then show "parseError ext error = Inl thrown"
      using parseError_revert_undecodable
        [of error jsonErr ext err err_data last_log hex return_data thrown]
      by blast
  next
    assume h: "message error = ''JSONRPCError: server error '' @ jsonErr
      \<and> JSON_parse ext jsonErr =
          Some (JObject
                 [(''code'', JNumber 5),
                  (''data'',
                   JObject
                     [(''last_log'',
                       JObject [(''data'', JString (''0x'' @ concat (replicate 40 ''00'')))]),
                      (''return_data'',
                       JString (''0x'' @ replicate 10 (CHR ''0'') @ abi))])])
      \<and> decodeParameter ext (''00'' @ abi) = Inr reason"
    then show raised: "parseError ext error =
      Inl (RpcError (JNumber 5)
            (JSON_stringify ext
               (JObject [(''status_code'', JNumber 0), (''status_reason'', JString reason)])))"
      using example by blast
    assume "JSON_parse ext
          (JSON_stringify ext
             (JObject [(''status_code'', JNumber 0), (''status_reason'', JString reason)]))
        = Some (JObject [(''status_code'', JNumber 0), (''status_reason'', JString reason)])"
    with raised show "\<exists>m. parseError ext error = Inl (RpcError (JNumber 5) m)
             \<and> JSON_parse ext m =
                 Some (JObject [(''status_code'', JNumber 0),
                                (''status_reason'', JString reason)])"
      by blast
  qed
qed

theorem parseError_revert_witness:
  "JSON_parse sample_externals sample_section8_text = Some sample_section8_json
   \<and> decodeParameter sample_externals (''00'' @ sample_abi) = Inr ''''
   \<and> parseError sample_externals
         \<lparr>message = ''JSONRPCError: server error '' @ sample_section8_text\<rparr>
       = Inl (RpcError (JNumber 5) sample_receipt_empty_text)
   \<and> JSON_parse sample_externals sample_receipt_empty_text =
       Some (JObject [(''status_code'', JNumber 0), (''status_reason'', JString '''')])
   \<and> JSON_parse sample_externals sample_coded_text = Some sample_coded_json
   \<and> length (Buffer_from_hex (drop 2 (data sample_log))) = 40
   \<and> decodeParameter sample_externals (drop 10 sample_return_data) = Inr ''hi''
   \<and> parseError sample_externals
         \<lparr>message = ''JSONRPCError: server error '' @ sample_coded_text\<rparr>
       = Inl (RpcError (JNumber 3) sample_receipt_coded_text)"
proof -
  have m8: "message \<lparr>message = ''JSONRPCError: server error '' @ sample_section8_text\<rparr>
      = ''JSONRPCError: server error '' @ sample_section8_text"
    by simp
  have p8: "JSON_parse sample_externals sample_section8_text =
      Some (JObject
             [(''code'', JNumber 5),
              (''data'',
               JObject
                 [(''last_log'',
                   JObject [(''data'', JString (''0x'' @ concat (replicate 40 ''00'')))]),
                  (''return_data'',
                   JString (''0x'' @ replicate 10 (CHR ''0'') @ sample_abi))])])"
    using sample_parse_section8
    by (simp add: sample_section8_json_def sample_last_log_def sample_zero_hex_def
        eval_nat_numeral)
  have r8: "JSON_parse sample_externals
      (JSON_stringify sample_externals
         (JObject [(''status_code'', JNumber 0), (''status_reason'', JString '''')]))
      = Some (JObject [(''status_code'', JNumber 0), (''status_reason'', JString '''')])"
    using sample_stringify_empty sample_parse_receipt_empty by (simp add: errorReceipt_def)
  have s8: "JSON_stringify sample_externals
      (JObject [(''status_code'', JNumber 0), (''status_reason'', JString '''')])
      = sample_receipt_empty_text"
    using sample_stringify_empty by (simp add: errorReceipt_def)
  have a: "parseError sample_externals
         \<lparr>message = ''JSONRPCError: server error '' @ sample_section8_text\<rparr>
       = Inl (RpcError (JNumber 5)
              (JSON_stringify sample_externals
                 (JObject [(''status_code'', JNumber 0), (''status_reason'', JString '''')])))"
    using parseError_revert
      [where error = "\<lparr>message = ''JSONRPCError: server error '' @ sample_section8_text\<rparr>"
        and jsonErr = sample_section8_text and ext = sample_externals and abi = sample_abi
        and reason = "[]"]
      m8 p8 sample_decode_behind_zeros
    by blast
  have a': "JSON_parse sample_externals sample_receipt_empty_text =
       Some (JObject [(''status_code'', JNumber 0), (''status_reason'', JString '''')])"
    using r8 by (simp only: s8)
  have len: "length (Buffer_from_hex (drop 2 (data sample_log))) = 40"
    by (simp add: sample_log_buffer)
  have h: "message \<lparr>message = ''JSONRPCError: server error '' @ sample_coded_text\<rparr>
        = ''JSONRPCError: server error '' @ sample_coded_text
      \<and> JSON_parse sample_externals sample_coded_text = Some sample_coded_json
      \<and> get_prop sample_coded_json ''code'' = Inr (JNumber 3)
      \<and> get_prop sample_coded_json ''data'' =
          Inr (JObject
             [(''last_log'', JObject [(''data'', JString (data sample_log))]),
              (''return_data'', JString sample_return_data)])
      \<and> get_prop (JObject
             [(''last_log'', JObject [(''data'', JString (data sample_log))]),
              (''return_data'', JString sample_return_data)]) ''last_log''
          = Inr (JObject [(''data'', JString (data sample_log))])
      \<and> get_prop (JObject [(''data'', JString (data sample_log))]) ''data''
          = Inr (JString (data sample_log))
      \<and> length (Buffer_from_hex (drop 2 (data sample_log))) = 40
      \<and> get_prop (JObject
             [(''last_log'', JObject [(''data'', JString (data sample_log))]),
              (''return_data'', JString sample_return_data)]) ''return_data''
          = Inr (JString sample_return_data)
      \<and> decodeParameter sample_externals (drop 10 sample_return_data) = Inr ''hi''"
    using sample_parse_coded len sample_decode by (simp add: sample_coded_json_def)
  have "parseError sample_externals
         \<lparr>message = ''JSONRPCError: server error '' @ sample_coded_text\<rparr>
       = Inl (RpcError (JNumber 3)
              (JSON_stringify sample_externals
                 (JObject
                    [(''status_code'',
                      JNumber (int (\<Sum>i<4. unat (Buffer_from_hex (drop 2 (data sample_log))
                         ! (32 + i)) * 256 ^ i))),
                     (''status_reason'', JString ''hi'')])))"
    using parseError_revert
      [where error = "\<lparr>message = ''JSONRPCError: server error '' @ sample_coded_text\<rparr>"
        and jsonErr = sample_coded_text and ext = sample_externals
        and err = sample_coded_json and code = "JNumber 3"
        and err_data = "JObject
             [(''last_log'', JObject [(''data'', JString (data sample_log))]),
              (''return_data'', JString sample_return_data)]"
        and last_log = "JObject [(''data'', JString (data sample_log))]"
        and hex = "data sample_log" and return_data = sample_return_data
        and reason = "''hi''"]
      h
    by blast
  then have b: "parseError sample_externals
         \<lparr>message = ''JSONRPCError: server error '' @ sample_coded_text\<rparr>
       = Inl (RpcError (JNumber 3) sample_receipt_coded_text)"
    using sample_stringify_coded by (simp add: sample_log_status_sum errorReceipt_def)
  show ?thesis
    using a a' b len sample_parse_section8 sample_decode_behind_zeros sample_parse_coded
      sample_decode
    by (simp add: s8)
qed

text \<open>
  A revert of the shape of C2, with code 5 and a log of 40 zero bytes, whose return data
  is \<open>0x\<close>: the ABI coder is given no data and throws, and the translator throws the
  coder's plain error, which has no code.
\<close>

theorem revert_with_undecodable_return_data:
  "JSON_parse sample_externals sample_undecodable_text = Some sample_undecodable_json
   \<and> get_prop sample_undecodable_json ''code'' = Inr (JNumber 5)
   \<and> length (Buffer_from_hex (drop 2 sample_zero_hex)) = 40
   \<and> parseError sample_externals
         \<lparr>message = ''JSONRPCError: server error '' @ sample_undecodable_text\<rparr>
       = Inl (Error sample_abi_error_text)
   \<and> exn_code (Error sample_abi_error_text) = None"
proof -
  have "revert_branch sample_externals sample_undecodable_text
      = Inl (Error sample_abi_error_text)"
    by (simp add: revert_branch_def sample_parse_undecodable sample_undecodable_json_def
        sample_last_log_decoded substring10_def sample_decode_nothing)
  then have "parseError sample_externals
         \<lparr>message = ''JSONRPCError: server error '' @ sample_undecodable_text\<rparr>
       = Inl (Error sample_abi_error_text)"
    by (simp add: parseError_unfold startsWith_def)
  then show ?thesis
    using sample_parse_undecodable sample_zero_length
    by (simp add: sample_undecodable_json_def)
qed




text \<open>
  C8.  Where \<open>JSON.parse\<close> rejects a text, or returns an object without \<open>data\<close>, or
  one whose \<open>data\<close> is an object without \<open>last_log\<close>, the error whose message is the
  revert prefix followed by that text makes the translator throw a \<open>SyntaxError\<close> or a
  \<open>TypeError\<close>: neither an \<open>RpcError\<close>, the form of the structured revert error and of
  the generic error, nor a plain \<open>Error\<close>, the form of the network-failure error.
\<close>

theorem revert_branch_partial:
  assumes "JSON_parse ext rest = None
     \<or> (\<exists>kvs. JSON_parse ext rest = Some (JObject kvs) \<and> map_of kvs ''data'' = None)
     \<or> (\<exists>kvs kvs'. JSON_parse ext rest = Some (JObject kvs)
           \<and> map_of kvs ''data'' = Some (JObject kvs') \<and> map_of kvs' ''last_log'' = None)"
  shows "startsWith (''JSONRPCError: server error '' @ rest) ''JSONRPCError: server error ''
       \<and> (\<exists>x. parseError ext \<lparr>message = ''JSONRPCError: server error '' @ rest\<rparr> = Inl x
            \<and> (x = SyntaxError \<or> x = TypeError)
            \<and> (\<forall>code text. x \<noteq> RpcError code text)
            \<and> (\<forall>text. x \<noteq> Error text))"
proof -
  let ?error = "\<lparr>message = ''JSONRPCError: server error '' @ rest\<rparr>"
  have p: "startsWith (message ?error) ''JSONRPCError: server error ''"
    by (simp add: startsWith_def)
  have d: "drop 27 (message ?error) = rest"
    by simp
  have "revert_branch ext rest = Inl SyntaxError \<or> revert_branch ext rest = Inl TypeError"
    using assms
  proof (elim disjE exE conjE)
    assume "JSON_parse ext rest = None"
    then show ?thesis by (simp add: revert_branch_def)
  next
    fix kvs
    assume parsed: "JSON_parse ext rest = Some (JObject kvs)" and none: "map_of kvs ''data'' = None"
    have a: "get_prop (JObject kvs) ''data'' = Inr JUndefined"
      by (simp only: get_prop.simps none option.case)
    have b: "get_prop JUndefined ''last_log'' = Inl TypeError"
      by simp
    have "revert_branch ext rest = Inl TypeError"
      by (simp add: revert_branch_def parsed a b del: get_prop.simps)
    then show ?thesis by simp
  next
    fix kvs kvs'
    assume parsed: "JSON_parse ext rest = Some (JObject kvs)"
      and some: "map_of kvs ''data'' = Some (JObject kvs')"
      and none: "map_of kvs' ''last_log'' = None"
    have a: "get_prop (JObject kvs) ''data'' = Inr (JObject kvs')"
      by (simp only: get_prop.simps some option.case)
    have b: "get_prop (JObject kvs') ''last_log'' = Inr JUndefined"
      by (simp only: get_prop.simps none option.case)
    have c: "parsePolyjuiceSystemLog_untyped ext JUndefined = Inl TypeError"
      by (simp add: parsePolyjuiceSystemLog_untyped_def logItem_buffer_def)
    have "revert_branch ext rest = Inl TypeError"
      by (simp add: revert_branch_def parsed a b c del: get_prop.simps)
    then show ?thesis by simp
  qed
  then have "parseError ext ?error = Inl SyntaxError \<or> parseError ext ?error = Inl TypeError"
    by (simp only: parseError_unfold p d if_True)
  then have "\<exists>x. parseError ext ?error = Inl x
       \<and> (x = SyntaxError \<or> x = TypeError)
       \<and> (\<forall>code text. x \<noteq> RpcError code text)
       \<and> (\<forall>text. x \<noteq> Error text)"
    by auto
  moreover have "startsWith (''JSONRPCError: server error '' @ rest) ''JSONRPCError: server error ''"
    by (rule startsWith_append)
  ultimately show ?thesis by simp
qed

theorem revert_branch_partial_witness:
  "JSON_parse sample_externals ''not json'' = None
   \<and> parseError sample_externals \<lparr>message = ''JSONRPCError: server error not json''\<rparr>
       = Inl SyntaxError
   \<and> JSON_parse sample_externals ''{}'' = Some (JObject [])
   \<and> map_of ([] :: (string \<times> jsval) list) ''data'' = None
   \<and> parseError sample_externals \<lparr>message = ''JSONRPCError: server error {}''\<rparr>
       = Inl TypeError"
proof -
  have "\<exists>x. parseError sample_externals
        \<lparr>message = ''JSONRPCError: server error '' @ ''not json''\<rparr> = Inl x
      \<and> (x = SyntaxError \<or> x = TypeError)"
    using revert_branch_partial [of sample_externals "''not json''"] sample_parse_garbage
    by blast
  moreover have "parseError sample_externals
      \<lparr>message = ''JSONRPCError: server error '' @ ''not json''\<rparr> \<noteq> Inl TypeError"
    by (simp add: parseError_unfold startsWith_def revert_branch_def sample_parse_garbage)
  ultimately have a: "parseError sample_externals
      \<lparr>message = ''JSONRPCError: server error '' @ ''not json''\<rparr> = Inl SyntaxError"
    by auto
  have "\<exists>x. parseError sample_externals
        \<lparr>message = ''JSONRPCError: server error '' @ ''{}''\<rparr> = Inl x
      \<and> (x = SyntaxError \<or> x = TypeError)"
    using revert_branch_partial [of sample_externals "''{}''"] sample_parse_empty
    by auto
  moreover have "parseError sample_externals
      \<lparr>message = ''JSONRPCError: server error '' @ ''{}''\<rparr> \<noteq> Inl SyntaxError"
    by (simp add: parseError_unfold startsWith_def revert_branch_def sample_parse_empty)
  ultimately have b: "parseError sample_externals
      \<lparr>message = ''JSONRPCError: server error '' @ ''{}''\<rparr> = Inl TypeError"
    by auto
  show ?thesis
    using a b sample_parse_garbage sample_parse_empty by simp
qed

text \<open>
  C10, as the code has it.  A message that starts with \<open>request to\<close> does not have the
  revert prefix, and the translator throws a plain \<open>Error\<close> with that message, which
  has no code.  For a message with neither prefix it throws an \<open>RpcError\<close> whose code is
  the number \<open>GW_RPC_REQUEST_ERROR\<close>.  The revert branch, when each of its steps
  succeeds, throws an \<open>RpcError\<close> whose code is the value of the upstream's \<open>code\<close>, a
  number when the upstream sent one.
\<close>

theorem request_to_error_has_no_code:
  "(startsWith (message error) ''request to'' \<longrightarrow>
      \<not> startsWith (message error) ''JSONRPCError: server error ''
      \<and> parseError ext error = Inl (Error (message error))
      \<and> exn_code (Error (message error)) = None)
   \<and> (\<not> startsWith (message error) ''JSONRPCError: server error ''
        \<and> \<not> startsWith (message error) ''request to'' \<longrightarrow>
        (\<exists>x. parseError ext error = Inl x
           \<and> exn_code x = Some (JNumber (GW_RPC_REQUEST_ERROR ext))))
   \<and> (startsWith (message error) ''JSONRPCError: server error ''
        \<and> JSON_parse ext (drop 27 (message error)) = Some err
        \<and> get_prop err ''data'' = Inr err_data
        \<and> get_prop err_data ''last_log'' = Inr last_log
        \<and> parsePolyjuiceSystemLog_untyped ext last_log = Inr log
        \<and> get_prop err_data ''return_data'' = Inr return_data
        \<and> substring10 return_data = Inr abi_data
        \<and> decodeParameter ext abi_data = Inr reason
        \<and> get_prop err ''code'' = Inr code \<longrightarrow>
        (\<exists>x. parseError ext error = Inl x \<and> exn_code x = Some code))"
proof (intro conjI impI)
  assume r: "startsWith (message error) ''request to''"
  then show n: "\<not> startsWith (message error) ''JSONRPCError: server error ''"
    using prefixes_exclusive [of "message error"] by simp
  from r n show "parseError ext error = Inl (Error (message error))"
    by (simp add: parseError_unfold)
  show "exn_code (Error (message error)) = None"
    by simp
next
  assume "\<not> startsWith (message error) ''JSONRPCError: server error ''
        \<and> \<not> startsWith (message error) ''request to''"
  then show "\<exists>x. parseError ext error = Inl x
      \<and> exn_code x = Some (JNumber (GW_RPC_REQUEST_ERROR ext))"
    by (simp add: parseError_unfold)
next
  assume "startsWith (message error) ''JSONRPCError: server error ''
        \<and> JSON_parse ext (drop 27 (message error)) = Some err
        \<and> get_prop err ''data'' = Inr err_data
        \<and> get_prop err_data ''last_log'' = Inr last_log
        \<and> parsePolyjuiceSystemLog_untyped ext last_log = Inr log
        \<and> get_prop err_data ''return_data'' = Inr return_data
        \<and> substring10 return_data = Inr abi_data
        \<and> decodeParameter ext abi_data = Inr reason
        \<and> get_prop err ''code'' = Inr code"
  then show "\<exists>x. parseError ext error = Inl x \<and> exn_code x = Some code"
    using revert_branch_success [of ext "drop 27 (message error)" err err_data last_log log
        return_data abi_data reason code]
    by (simp add: parseError_unfold)
qed

theorem request_to_error_has_no_code_witness:
  "startsWith ''request to http://localhost:8119 failed'' ''request to''
   \<and> parseError sample_externals \<lparr>message = ''request to http://localhost:8119 failed''\<rparr>
       = Inl (Error ''request to http://localhost:8119 failed'')
   \<and> exn_code (Error ''request to http://localhost:8119 failed'') = None
   \<and> \<not> startsWith ''boom'' ''JSONRPCError: server error ''
   \<and> \<not> startsWith ''boom'' ''request to''
   \<and> (\<exists>x. parseError sample_externals \<lparr>message = ''boom''\<rparr> = Inl x
          \<and> exn_code x = Some (JNumber (- 32099)))
   \<and> startsWith (''JSONRPCError: server error '' @ sample_revert_text)
         ''JSONRPCError: server error ''
   \<and> get_prop sample_revert_json ''code'' = Inr (JNumber 5)
   \<and> (\<exists>x. parseError sample_externals
            \<lparr>message = ''JSONRPCError: server error '' @ sample_revert_text\<rparr> = Inl x
          \<and> exn_code x = Some (JNumber 5))"
proof -
  have a: "parseError sample_externals \<lparr>message = ''request to http://localhost:8119 failed''\<rparr>
       = Inl (Error ''request to http://localhost:8119 failed'')"
    using request_to_error_has_no_code
      [of "\<lparr>message = ''request to http://localhost:8119 failed''\<rparr>" sample_externals]
      sample_request_to
    by simp
  have gw: "GW_RPC_REQUEST_ERROR sample_externals = - 32099"
    by (simp add: sample_externals_def)
  have b: "\<exists>x. parseError sample_externals \<lparr>message = ''boom''\<rparr> = Inl x
      \<and> exn_code x = Some (JNumber (- 32099))"
    using request_to_error_has_no_code [of "\<lparr>message = ''boom''\<rparr>" sample_externals]
      sample_neither gw
    by simp
  have p: "startsWith (''JSONRPCError: server error '' @ sample_revert_text)
         ''JSONRPCError: server error ''"
    by (rule startsWith_append)
  have s: "substring10 (JString sample_return_data) = Inr (drop 10 sample_return_data)"
    by (simp add: substring10_def)
  have h: "startsWith
        (message \<lparr>message = ''JSONRPCError: server error '' @ sample_revert_text\<rparr>)
        ''JSONRPCError: server error ''
      \<and> JSON_parse sample_externals
          (drop 27 (message \<lparr>message = ''JSONRPCError: server error '' @ sample_revert_text\<rparr>))
        = Some sample_revert_json
      \<and> get_prop sample_revert_json ''data'' = Inr sample_revert_data
      \<and> get_prop sample_revert_data ''last_log'' = Inr sample_last_log
      \<and> parsePolyjuiceSystemLog_untyped sample_externals sample_last_log =
          Inr \<lparr>gasUsed = 0, cumulativeGasUsed = 0,
            createdAddress = ''0x00000000000000000000000000000000'', statusCode = 0\<rparr>
      \<and> get_prop sample_revert_data ''return_data'' = Inr (JString sample_return_data)
      \<and> substring10 (JString sample_return_data) = Inr (drop 10 sample_return_data)
      \<and> decodeParameter sample_externals (drop 10 sample_return_data) = Inr ''hi''
      \<and> get_prop sample_revert_json ''code'' = Inr (JNumber 5)"
    using p sample_parse_revert sample_data sample_data_last_log
      sample_last_log_decoded [of sample_externals] sample_data_return_data s sample_decode
      sample_code
    by simp
  have c: "\<exists>x. parseError sample_externals
            \<lparr>message = ''JSONRPCError: server error '' @ sample_revert_text\<rparr> = Inl x
          \<and> exn_code x = Some (JNumber 5)"
    using request_to_error_has_no_code
      [of "\<lparr>message = ''JSONRPCError: server error '' @ sample_revert_text\<rparr>"
        sample_externals sample_revert_json sample_revert_data sample_last_log
        "\<lparr>gasUsed = 0, cumulativeGasUsed = 0,
          createdAddress = ''0x00000000000000000000000000000000'', statusCode = 0\<rparr>"
        "JString sample_return_data" "drop 10 sample_return_data" "''hi''" "JNumber 5"]
      h
    by blast
  show ?thesis
    using a b c p sample_request_to sample_neither sample_code by simp
qed

text \<open>
  Two messages with the revert prefix.  For the first the rest is \<open>{}\<close>, and the
  translator throws a \<open>TypeError\<close>, which has no code.  For the second every step of
  the revert branch succeeds and the upstream sent no \<open>code\<close>: the code of the
  \<open>RpcError\<close> thrown is \<open>undefined\<close>, not a number.
\<close>

theorem revert_branch_without_numeric_code:
  "startsWith ''JSONRPCError: server error {}'' ''JSONRPCError: server error ''
   \<and> parseError sample_externals \<lparr>message = ''JSONRPCError: server error {}''\<rparr>
       = Inl TypeError
   \<and> exn_code TypeError = None
   \<and> startsWith (''JSONRPCError: server error '' @ sample_nocode_text)
         ''JSONRPCError: server error ''
   \<and> parseError sample_externals
         \<lparr>message = ''JSONRPCError: server error '' @ sample_nocode_text\<rparr>
       = Inl (RpcError JUndefined sample_receipt_text)
   \<and> exn_code (RpcError JUndefined sample_receipt_text) = Some JUndefined"
proof -
  have a: "parseError sample_externals \<lparr>message = ''JSONRPCError: server error {}''\<rparr>
       = Inl TypeError"
    by (simp add: parseError_unfold startsWith_def revert_branch_def sample_parse_empty)
  have m: "message \<lparr>message = ''JSONRPCError: server error '' @ sample_nocode_text\<rparr>
      = ''JSONRPCError: server error '' @ sample_nocode_text"
    by simp
  have code: "get_prop sample_nocode_json ''code'' = Inr JUndefined"
    by (simp add: sample_nocode_json_def)
  have data: "get_prop sample_nocode_json ''data'' = Inr sample_revert_data"
    by (simp add: sample_nocode_json_def)
  have "parseError sample_externals
         \<lparr>message = ''JSONRPCError: server error '' @ sample_nocode_text\<rparr>
       = Inl (RpcError JUndefined
              (JSON_stringify sample_externals
                 (errorReceipt
                    (statusCode \<lparr>gasUsed = 0, cumulativeGasUsed = 0,
                       createdAddress = ''0x00000000000000000000000000000000'',
                       statusCode = 0\<rparr>)
                    ''hi'')))"
    using parseError_revert_general [OF m sample_parse_nocode code data sample_data_last_log
        sample_last_log_data sample_zero_log sample_data_return_data sample_decode] .
  then have b: "parseError sample_externals
         \<lparr>message = ''JSONRPCError: server error '' @ sample_nocode_text\<rparr>
       = Inl (RpcError JUndefined sample_receipt_text)"
    by (simp add: sample_stringify)
  show ?thesis
    using a b by (simp add: startsWith_def)
qed

section \<open>The claims about the wrapper and the net methods\<close>

lemma Gw_body_forward: "Gw_body ext rpc m args = forward ext rpc (''gw_'' @ method_name m) args"
  by (cases m) simp_all

text \<open>
  C6.  Each method sends one call to the upstream, under the name \<open>gw_\<close> followed by its
  own name and with its arguments as they are.  It returns the upstream's result when
  the call succeeds; when the call is rejected it throws what the error translator
  throws, and the translator always throws, so the method does not return.  This is so
  of the methods as the class declares them, and of the methods that the constructor
  installs when \<open>middleware(method, 0)\<close> calls \<open>method\<close> with the arguments it gets.
\<close>

theorem Gw_forwards:
  "fst (Gw_body ext rpc m args) = [(''gw_'' @ method_name m, args)]
   \<and> (\<forall>result. rpc (''gw_'' @ method_name m) args = Inr result \<longrightarrow>
         snd (Gw_body ext rpc m args) = Inr result)
   \<and> (\<forall>error. rpc (''gw_'' @ method_name m) args = Inl error \<longrightarrow>
         (\<exists>x. parseError ext error = Inl x \<and> snd (Gw_body ext rpc m args) = Inl x))
   \<and> (\<exists>x. parseError ext error' = Inl x)
   \<and> ((\<forall>f. middleware f 0 = f) \<longrightarrow> Gw middleware ext rpc m args = Gw_body ext rpc m args)"
proof (intro conjI allI impI)
  show "fst (Gw_body ext rpc m args) = [(''gw_'' @ method_name m, args)]"
    by (simp add: Gw_body_forward forward_def)
next
  fix result
  assume "rpc (''gw_'' @ method_name m) args = Inr result"
  then show "snd (Gw_body ext rpc m args) = Inr result"
    by (simp add: Gw_body_forward forward_def)
next
  fix error
  assume rejected: "rpc (''gw_'' @ method_name m) args = Inl error"
  obtain x where x: "parseError ext error = Inl x"
    using parseError_raises [of ext error] by blast
  have "snd (Gw_body ext rpc m args) = Inl x"
    using rejected x by (simp add: Gw_body_forward forward_def)
  with x show "\<exists>x. parseError ext error = Inl x \<and> snd (Gw_body ext rpc m args) = Inl x"
    by blast
next
  show "\<exists>x. parseError ext error' = Inl x"
    by (rule parseError_raises)
next
  assume "\<forall>f. middleware f 0 = f"
  then show "Gw middleware ext rpc m args = Gw_body ext rpc m args"
    by (simp add: Gw_def)
qed

theorem Gw_forwards_witness:
  "sample_upstream (''gw_'' @ method_name ping) [] =
     Inl \<lparr>message = ''request to http://localhost:8119 failed''\<rparr>
   \<and> Gw (\<lambda>f n. f) sample_externals sample_upstream ping [] =
       ([(''gw_ping'', [])], Inl (Error ''request to http://localhost:8119 failed''))
   \<and> sample_upstream (''gw_'' @ method_name get_block) [JString ''0x01''] = Inr JNull
   \<and> Gw (\<lambda>f n. f) sample_externals sample_upstream get_block [JString ''0x01''] =
       ([(''gw_get_block'', [JString ''0x01''])], Inr JNull)"
proof -
  have rejected: "sample_upstream (''gw_'' @ method_name ping) [] =
      Inl \<lparr>message = ''request to http://localhost:8119 failed''\<rparr>"
    by (simp add: sample_upstream_def)
  have answered: "sample_upstream (''gw_'' @ method_name get_block) [JString ''0x01''] = Inr JNull"
    by (simp add: sample_upstream_def)
  have thrown: "parseError sample_externals \<lparr>message = ''request to http://localhost:8119 failed''\<rparr>
      = Inl (Error ''request to http://localhost:8119 failed'')"
    by (simp add: parseError_unfold startsWith_def)
  have mw: "\<forall>f. (\<lambda>f n. f) f (0::nat) = f"
    by simp
  note p = Gw_forwards [of sample_externals sample_upstream ping "[]" _ "\<lambda>f n. f"]
  note g = Gw_forwards [of sample_externals sample_upstream get_block "[JString ''0x01'']" _
      "\<lambda>f n. f"]
  have p1: "fst (Gw_body sample_externals sample_upstream ping []) = [(''gw_ping'', [])]"
    using p by simp
  have p2: "snd (Gw_body sample_externals sample_upstream ping []) =
      Inl (Error ''request to http://localhost:8119 failed'')"
    using p rejected thrown by auto
  have g1: "fst (Gw_body sample_externals sample_upstream get_block [JString ''0x01''])
      = [(''gw_get_block'', [JString ''0x01''])]"
    using g by simp
  have g2: "snd (Gw_body sample_externals sample_upstream get_block [JString ''0x01'']) = Inr JNull"
    using g answered by auto
  have "Gw (\<lambda>f n. f) sample_externals sample_upstream ping [] =
      Gw_body sample_externals sample_upstream ping []"
    using p mw by blast
  moreover have "Gw (\<lambda>f n. f) sample_externals sample_upstream get_block [JString ''0x01''] =
      Gw_body sample_externals sample_upstream get_block [JString ''0x01'']"
    using g mw by blast
  ultimately show ?thesis
    using p1 p2 g1 g2 rejected answered by (simp add: prod_eq_iff)
qed

text \<open>
  C7.  Whatever the arguments, each net method calls its callback once, with \<open>null\<close> as
  the error and its value: the configured chain id for \<open>version\<close>, the number 0 for
  \<open>peerCount\<close>, and the server's listening flag for \<open>listening\<close>.
\<close>

theorem net_methods:
  "version env args callback = callback JNull (chain_id env)
   \<and> peerCount env args callback = callback JNull (JNumber 0)
   \<and> listening env args callback = callback JNull (JBool (isListening env))
   \<and> version env args Pair = (JNull, chain_id env)
   \<and> peerCount env args Pair = (JNull, JNumber 0)
   \<and> listening env args Pair = (JNull, JBool (isListening env))
   \<and> peerCount env args callback = peerCount env' args' callback
   \<and> version env args callback = version env args' callback
   \<and> listening env args callback = listening env args' callback"
  by (simp add: version_def peerCount_def listening_def)

end
